theory Spec2Isabelle
  imports Complex_Main "HOL-Library.Multiset"
begin

section \<open>ReportZen: the Firebase Admin credential bootstrap and the user listing action\<close>

text \<open>
  A shallow embedding of the two server-side modules of the repository:
  \<^item> the admin module (\<open>initializeFirebaseAdmin\<close>, the module-load call around it and
    \<open>getAdminAuth\<close>), with its four module-level variables as a record that is passed
    in and returned;
  \<^item> \<open>src/actions/list-users.ts\<close> (\<open>listUsersAction\<close>).

  JavaScript strings are modelled as \<^typ>\<open>string\<close>, each \<^typ>\<open>char\<close> standing for one
  code unit below 256 (so \<open>CHR 0xE9\<close> is the letter e with an acute accent).
  Everything outside the two modules (the process environment, the file system,
  \<open>JSON.parse\<close>, \<open>Date\<close>, the firebase-admin SDK and the identity provider behind it, and
  what the engine's sort does where the language leaves it open) is a
  field of the record \<open>process\<close>: the answer the outside world gives to each call the code
  makes. Console output is not modelled. A thrown JavaScript error is a value of
  \<open>js_error\<close>; a function that can throw returns \<open>js_error + 'a\<close> with \<open>Inl\<close> for the throw.
\<close>

subsection \<open>JavaScript values\<close>

datatype json =
    JNull
  | JBool bool
  | JNumber real
  | JString string
  | JArray "json list"
  | JObject "(string \<times> json) list"

text \<open>An error object: its \<open>code\<close> property (undefined for a plain \<open>Error\<close>) and its message.\<close>

record js_error =
  error_code :: "string option"
  error_message :: string

definition new_Error :: "string \<Rightarrow> js_error" where
  "new_Error m = \<lparr>error_code = None, error_message = m\<rparr>"

text \<open>\<open>typeof\<close> on a parsed JSON value.\<close>

fun typeof :: "json \<Rightarrow> string" where
  "typeof JNull = ''object''"
| "typeof (JBool b) = ''boolean''"
| "typeof (JNumber n) = ''number''"
| "typeof (JString s) = ''string''"
| "typeof (JArray xs) = ''object''"
| "typeof (JObject kvs) = ''object''"

text \<open>
  Reading a named property (one that is not built in, such as \<open>project_id\<close>) of a parsed
  JSON value; \<open>None\<close> is \<open>undefined\<close>. An object lists each of its keys once.
\<close>

fun get_prop :: "json \<Rightarrow> string \<Rightarrow> json option" where
  "get_prop (JObject kvs) k = map_of kvs k"
| "get_prop v k = None"

text \<open>JavaScript truthiness of a value that may be \<open>undefined\<close>.\<close>

fun truthy :: "json option \<Rightarrow> bool" where
  "truthy None = False"
| "truthy (Some JNull) = False"
| "truthy (Some (JBool b)) = b"
| "truthy (Some (JNumber n)) = (n \<noteq> 0)"
| "truthy (Some (JString s)) = (s \<noteq> [])"
| "truthy (Some (JArray xs)) = True"
| "truthy (Some (JObject kvs)) = True"

text \<open>\<open>String.prototype.trim\<close>: the white space and line terminator code units below 256.\<close>

definition isWhiteSpace :: "char \<Rightarrow> bool" where
  "isWhiteSpace c = (c \<in> set [CHR 0x09, CHR 0x0A, CHR 0x0B, CHR 0x0C, CHR 0x0D, CHR 0x20, CHR 0xA0])"

definition trim :: "string \<Rightarrow> string" where
  "trim s = rev (dropWhile isWhiteSpace (rev (dropWhile isWhiteSpace s)))"

text \<open>\<open>String.prototype.includes\<close>.\<close>

fun starts_with :: "string \<Rightarrow> string \<Rightarrow> bool" where
  "starts_with s [] = True"
| "starts_with [] (p # ps) = False"
| "starts_with (c # cs) (p # ps) = (c = p \<and> starts_with cs ps)"

fun str_includes :: "string \<Rightarrow> string \<Rightarrow> bool" where
  "str_includes [] p = (p = [])"
| "str_includes (c # cs) p = (starts_with (c # cs) p \<or> str_includes cs p)"

text \<open>A natural number in a template literal: its decimal digits.\<close>

fun string_of_nat :: "nat \<Rightarrow> string" where
  "string_of_nat n =
     (if n < 10 then [''0123456789'' ! n]
      else string_of_nat (n div 10) @ [''0123456789'' ! (n mod 10)])"

subsection \<open>The outside world\<close>

datatype auth_handle = Auth string

text \<open>
  The calls the admin module makes to the file system and to the SDK. \<open>Admin_apps\<close> stands
  for one test of \<open>admin.apps\<close> (the condition of an \<open>if\<close>), however many times the
  condition reads the list.
\<close>

datatype io_call =
    Fs_existsSync
  | Fs_readFileSync
  | Admin_apps
  | Admin_initializeApp
  | Admin_auth
  | App_auth

record UserMetadata =
  creationTime :: string
  lastSignInTime :: string

record UserRecord =
  uid :: string
  email :: "string option"
  metadata :: UserMetadata
  disabled :: bool
  customClaims :: "(string \<times> json) list option"

text \<open>
  \<^item> \<open>env_\<dots>\<close>: \<open>process.env[\<dots>]\<close>, \<open>None\<close> when the variable is not set;
  \<^item> \<open>JSON_parse\<close>: \<open>Inl m\<close> is a \<open>SyntaxError\<close> with message \<open>m\<close>;
  \<^item> \<open>Date_getTime\<close>: \<open>new Date(s).getTime()\<close>, \<open>None\<close> for \<open>NaN\<close>;
  \<^item> \<open>path_resolve\<close>: the value of \<open>path.resolve\<close> on the service account file name;
  \<^item> \<open>fs_existsSync\<close>, \<open>fs_readFileSync\<close>: the answers of the file system for that path;
  \<^item> \<open>admin_apps\<close>: \<open>admin.apps\<close> when the SDK block is entered, each entry \<open>null\<close>
    (\<open>None\<close>) or an app, given by what its \<open>auth()\<close> does;
  \<^item> \<open>admin_auth\<close>: \<open>admin.auth()\<close> on that entry state;
  \<^item> \<open>admin_initializeApp\<close>: \<open>admin.initializeApp({credential: admin.credential.cert(sa)})\<close>,
    \<open>Some e\<close> when it throws \<open>e\<close>;
  \<^item> \<open>admin_auth_after_init\<close>: \<open>admin.auth()\<close> once \<open>initializeApp\<close> has succeeded;
  \<^item> \<open>admin_apps_after_failure\<close>: \<open>admin.apps\<close> as read in the catch block;
  \<^item> \<open>auth_listUsers\<close>: \<open>adminAuth.listUsers(maxResults)\<close>, the accounts of the answer;
  \<^item> \<open>Array_sort_order\<close>: the order in which the engine's \<open>Array.prototype.sort\<close> leaves
    the array when the comparator is not a consistent one (the order is then left to the
    engine), given as the position at which each element is put back (see \<open>arrange\<close>).
\<close>

record process =
  env_FIREBASE_SERVICE_ACCOUNT_KEY :: "string option"
  env_NEXT_PUBLIC_ADMIN_UID :: "string option"
  JSON_parse :: "string \<Rightarrow> string + json"
  Date_getTime :: "string \<Rightarrow> int option"
  path_resolve :: string
  fs_existsSync :: bool
  fs_readFileSync :: "js_error + string"
  admin_apps :: "(js_error + auth_handle) option list"
  admin_auth :: "js_error + auth_handle"
  admin_initializeApp :: "json \<Rightarrow> js_error option"
  admin_auth_after_init :: "js_error + auth_handle"
  admin_apps_after_failure :: "(js_error + auth_handle) option list"
  auth_listUsers :: "auth_handle \<Rightarrow> nat \<Rightarrow> js_error + UserRecord list"
  Array_sort_order :: "nat list"

subsection \<open>The admin module: state\<close>

record module_state =
  adminAuthInstance :: "auth_handle option"
  initializationError :: "js_error option"
  isInitialized :: bool
  initializedVia :: "string option"

definition initial_state :: module_state where
  "initial_state =
     \<lparr>adminAuthInstance = None, initializationError = None,
      isInitialized = False, initializedVia = None\<rparr>"

definition serviceAccountFilename :: string where
  "serviceAccountFilename = ''reportzen-mixd3-firebase-adminsdk-fbsvc-f006f10e8d.json''"

definition envVarKey :: string where
  "envVarKey = ''FIREBASE_SERVICE_ACCOUNT_KEY''"

text \<open>
  What a call of \<open>initializeFirebaseAdmin\<close> leaves behind: the module variables, the error
  it threw (if it did not return), and the calls it made to the file system and the SDK.
\<close>

record init_result =
  final :: module_state
  thrown :: "js_error option"
  io :: "io_call list"

definition returned :: "module_state \<Rightarrow> io_call list \<Rightarrow> init_result" where
  "returned s calls = \<lparr>final = s, thrown = None, io = calls\<rparr>"

definition threw :: "module_state \<Rightarrow> js_error \<Rightarrow> io_call list \<Rightarrow> init_result" where
  "threw s e calls = \<lparr>final = s, thrown = Some e, io = calls\<rparr>"

text \<open>\<open>a || b\<close> on a string that may be \<open>null\<close>: \<open>null\<close> and the empty string are falsy.\<close>

fun or_else :: "string option \<Rightarrow> string \<Rightarrow> string" where
  "or_else None d = d"
| "or_else (Some s) d = (if s = [] then d else s)"

subsection \<open>The admin module: validation of a credential blob\<close>

text \<open>The condition of the \<open>if\<close> that throws, in both loading methods.\<close>

definition credentialsInvalid :: "json \<Rightarrow> bool" where
  "credentialsInvalid parsed =
     (typeof parsed \<noteq> ''object'' \<or> parsed = JNull
      \<or> \<not> truthy (get_prop parsed ''project_id'')
      \<or> \<not> truthy (get_prop parsed ''private_key'')
      \<or> \<not> truthy (get_prop parsed ''client_email''))"

definition invalidFieldsMessage :: string where
  "invalidFieldsMessage =
     ''Parsed JSON object is invalid or missing required fields (project_id, private_key, client_email).''"

text \<open>
  \<open>JSON.parse\<close> followed by the shape check. \<open>Inl (True, m)\<close> is the \<open>SyntaxError\<close> of
  \<open>JSON.parse\<close>, \<open>Inl (False, m)\<close> the plain \<open>Error\<close> thrown by the check.
\<close>

definition parseAndValidate :: "process \<Rightarrow> string \<Rightarrow> (bool \<times> string) + json" where
  "parseAndValidate P text =
     (case JSON_parse P text of
        Inl m \<Rightarrow> Inl (True, m)
      | Inr parsed \<Rightarrow>
          if credentialsInvalid parsed then Inl (False, invalidFieldsMessage) else Inr parsed)"

subsection \<open>The admin module: loading the credentials\<close>

definition envParseFailure :: "string \<Rightarrow> string" where
  "envParseFailure m =
     ''CRITICAL - Failed to parse service account JSON from '' @ envVarKey
     @ ''. Ensure it'' @ [CHR 0x27] @ ''s valid, complete, single-line JSON. Error: '' @ m"

definition fileParseFailure :: "string \<Rightarrow> string" where
  "fileParseFailure m =
     ''CRITICAL - Failed to parse service account JSON from '' @ serviceAccountFilename
     @ ''. Ensure it'' @ [CHR 0x27] @ ''s valid JSON. Error: '' @ m"

definition fileReadFailure :: "string \<Rightarrow> string" where
  "fileReadFailure m =
     ''CRITICAL - Error reading local '' @ serviceAccountFilename @ '': '' @ m"

definition noCredentialsFailure :: "process \<Rightarrow> string" where
  "noCredentialsFailure P =
     ''CRITICAL - No valid service account credentials found. Cannot initialize. ''
     @ ''Checked environment variable '' @ [CHR 0x27] @ envVarKey @ [CHR 0x27]
     @ '' and local file at '' @ [CHR 0x27] @ path_resolve P @ [CHR 0x27] @ ''.''"

text \<open>The guard of method 1: the variable is set, and is neither blank nor \<open>{}\<close>.\<close>

definition envVarUsable :: "process \<Rightarrow> bool" where
  "envVarUsable P =
     (case env_FIREBASE_SERVICE_ACCOUNT_KEY P of
        None \<Rightarrow> False
      | Some envVarValue \<Rightarrow>
          envVarValue \<noteq> [] \<and> trim envVarValue \<noteq> [] \<and> trim envVarValue \<noteq> ''{}'')"

text \<open>
  Method 1, the environment variable. \<open>Inl s\<close>: the function returned early with the module
  variables \<open>s\<close>; \<open>Inr (serviceAccountJson, credentialSource)\<close>: it goes on.
\<close>

definition loadFromEnvVar ::
  "process \<Rightarrow> module_state \<Rightarrow> module_state + (string option \<times> string option)" where
  "loadFromEnvVar P s =
     (case env_FIREBASE_SERVICE_ACCOUNT_KEY P of
        None \<Rightarrow> Inr (None, None)
      | Some envVarValue \<Rightarrow>
          if envVarValue \<noteq> [] \<and> trim envVarValue \<noteq> [] \<and> trim envVarValue \<noteq> ''{}'' then
            (case parseAndValidate P envVarValue of
               Inl (syntax, m) \<Rightarrow>
                 Inl (s\<lparr>initializationError := Some (new_Error (envParseFailure m))\<rparr>)
             | Inr parsed \<Rightarrow> Inr (Some envVarValue, Some ''environment variable''))
          else Inr (None, None))"

text \<open>
  Method 2, the local file, entered when \<open>serviceAccountJson\<close> is still falsy. The calls
  made to the file system are returned with the outcome.
\<close>

definition loadFromLocalFile ::
  "process \<Rightarrow> module_state \<Rightarrow> string option \<Rightarrow> string option \<Rightarrow>
   (module_state \<times> io_call list) + (string option \<times> string option \<times> io_call list)" where
  "loadFromLocalFile P s serviceAccountJson credentialSource =
     (if or_else serviceAccountJson [] \<noteq> [] then Inr (serviceAccountJson, credentialSource, [])
      else if fs_existsSync P then
        (case fs_readFileSync P of
           Inl error \<Rightarrow>
             Inl (s\<lparr>initializationError :=
                      Some (new_Error (fileReadFailure (error_message error)))\<rparr>,
                  [Fs_existsSync, Fs_readFileSync])
         | Inr content \<Rightarrow>
             if trim content = [] then
               Inr (None, credentialSource, [Fs_existsSync, Fs_readFileSync])
             else
               (case parseAndValidate P content of
                  Inl (syntax, m) \<Rightarrow>
                    Inl (s\<lparr>initializationError :=
                             Some (new_Error
                               (if syntax then fileParseFailure m else fileReadFailure m))\<rparr>,
                         [Fs_existsSync, Fs_readFileSync])
                | Inr parsed \<Rightarrow>
                    Inr (Some content,
                         Some (''local file ('' @ serviceAccountFilename @ '')''),
                         [Fs_existsSync, Fs_readFileSync])))
      else Inr (serviceAccountJson, credentialSource, [Fs_existsSync]))"

subsection \<open>The admin module: initialising the SDK\<close>

definition duplicateAppFailure :: "string \<Rightarrow> string" where
  "duplicateAppFailure m =
     ''CRITICAL - Caught '' @ [CHR 0x27] @ ''app/duplicate-app'' @ [CHR 0x27]
     @ '' error but no existing app found. Initialization failed. Error: '' @ m"

definition initializeAppFailure :: "string option \<Rightarrow> string \<Rightarrow> string" where
  "initializeAppFailure credentialSource m =
     ''CRITICAL - Error during admin.initializeApp() via ''
     @ or_else credentialSource ''unknown source'' @ ''. Error: '' @ m"

text \<open>
  The body of the \<open>try\<close>: parse again, build the credential and the app, fetch the auth
  service. The calls made are returned with the outcome.
\<close>

definition tryInitializeApp ::
  "process \<Rightarrow> string \<Rightarrow> (js_error + auth_handle) \<times> io_call list" where
  "tryInitializeApp P serviceAccountJson =
     (case JSON_parse P serviceAccountJson of
        Inl m \<Rightarrow> (Inl (new_Error m), [])
      | Inr serviceAccount \<Rightarrow>
          (case admin_initializeApp P serviceAccount of
             Some error \<Rightarrow> (Inl error, [Admin_initializeApp])
           | None \<Rightarrow> (admin_auth_after_init P, [Admin_initializeApp, Admin_auth])))"

definition initializeSdk ::
  "process \<Rightarrow> module_state \<Rightarrow> string \<Rightarrow> string option \<Rightarrow> io_call list \<Rightarrow> init_result" where
  "initializeSdk P s serviceAccountJson credentialSource calls =
     (if length (admin_apps P) > 0 then
        (case admin_auth P of
           Inl error \<Rightarrow> threw s error (calls @ [Admin_apps, Admin_auth])
         | Inr instance \<Rightarrow>
             returned
               (s\<lparr>adminAuthInstance := Some instance,
                  initializedVia := Some (or_else credentialSource ''existing app detection''),
                  initializationError := None\<rparr>)
               (calls @ [Admin_apps, Admin_auth]))
      else
        (case tryInitializeApp P serviceAccountJson of
           (Inr instance, tried) \<Rightarrow>
             returned
               (s\<lparr>adminAuthInstance := Some instance,
                  initializedVia := credentialSource,
                  initializationError := None\<rparr>)
               (calls @ [Admin_apps] @ tried)
         | (Inl error, tried) \<Rightarrow>
             if error_code error = Some ''app/duplicate-app'' then
               (case admin_apps_after_failure P of
                  Some app # rest \<Rightarrow>
                    (case app of
                       Inl authError \<Rightarrow>
                         threw s authError (calls @ [Admin_apps] @ tried @ [Admin_apps, App_auth])
                     | Inr instance \<Rightarrow>
                         returned
                           (s\<lparr>adminAuthInstance := Some instance,
                              initializedVia :=
                                Some (or_else credentialSource ''existing app detection''),
                              initializationError := None\<rparr>)
                           (calls @ [Admin_apps] @ tried @ [Admin_apps, App_auth]))
                | _ \<Rightarrow>
                    returned
                      (s\<lparr>initializationError :=
                           Some (new_Error (duplicateAppFailure (error_message error))),
                         adminAuthInstance := None\<rparr>)
                      (calls @ [Admin_apps] @ tried @ [Admin_apps]))
             else
               returned
                 (s\<lparr>initializationError :=
                      Some (new_Error
                        (initializeAppFailure credentialSource (error_message error))),
                    adminAuthInstance := None\<rparr>)
                 (calls @ [Admin_apps] @ tried)))"

subsection \<open>The admin module: \<open>initializeFirebaseAdmin\<close>, the module-load call, \<open>getAdminAuth\<close>\<close>

definition initializeFirebaseAdmin :: "process \<Rightarrow> module_state \<Rightarrow> init_result" where
  "initializeFirebaseAdmin P s0 =
     (if isInitialized s0 then returned s0 []
      else
        let s = s0\<lparr>isInitialized := True\<rparr> in
        (case loadFromEnvVar P s of
           Inl stopped \<Rightarrow> returned stopped []
         | Inr (envJson, envSource) \<Rightarrow>
             (case loadFromLocalFile P s envJson envSource of
                Inl (stopped, calls) \<Rightarrow> returned stopped calls
              | Inr (serviceAccountJson, credentialSource, calls) \<Rightarrow>
                  (case serviceAccountJson of
                     None \<Rightarrow>
                       returned
                         (s\<lparr>initializationError := Some (new_Error (noCredentialsFailure P))\<rparr>)
                         calls
                   | Some json \<Rightarrow>
                       if json = [] then
                         returned
                           (s\<lparr>initializationError :=
                                Some (new_Error (noCredentialsFailure P))\<rparr>)
                           calls
                       else initializeSdk P s json credentialSource calls))))"

text \<open>
  The call at module load: the module variables start at their declared values; an error
  thrown by the call is caught and recorded unless one is recorded already.
\<close>

definition moduleLoad :: "process \<Rightarrow> module_state" where
  "moduleLoad P =
     (let r = initializeFirebaseAdmin P initial_state in
      case thrown r of
        None \<Rightarrow> final r
      | Some initError \<Rightarrow>
          (final r)\<lparr>initializationError :=
                      (case initializationError (final r) of
                         Some e \<Rightarrow> Some e
                       | None \<Rightarrow> Some initError),
                    adminAuthInstance := None\<rparr>)"

definition accessFailedMessage :: "string \<Rightarrow> string" where
  "accessFailedMessage m =
     ''Firebase Admin SDK access failed: '' @ m
     @ ''. Check server startup logs for details. Common causes are missing, empty, or invalid ''
     @ ''service account credentials (env var '' @ [CHR 0x27] @ ''FIREBASE_SERVICE_ACCOUNT_KEY''
     @ [CHR 0x27] @ '' or local file '' @ [CHR 0x27] @ serviceAccountFilename @ [CHR 0x27]
     @ ''). Please verify your setup according to the README.md.''"

definition notInitializedMessage :: string where
  "notInitializedMessage =
     ''Firebase Admin SDK was not initialized successfully, but no specific error was recorded. ''
     @ ''This indicates a potential bug or race condition. Check server logs.''"

definition getAdminAuth :: "module_state \<Rightarrow> js_error + auth_handle" where
  "getAdminAuth s =
     (case initializationError s of
        Some err \<Rightarrow> Inl (new_Error (accessFailedMessage (error_message err)))
      | None \<Rightarrow>
          (case adminAuthInstance s of
             None \<Rightarrow> Inl (new_Error notInitializedMessage)
           | Some instance \<Rightarrow> Inr instance))"

text \<open>
  The module variables once the module has been loaded in the process \<open>P\<close> and
  \<open>initializeFirebaseAdmin\<close> has been called again, once in each process state of
  \<open>later\<close>.
\<close>

definition afterBootstrap :: "process \<Rightarrow> process list \<Rightarrow> module_state" where
  "afterBootstrap P later =
     foldl (\<lambda>s Q. final (initializeFirebaseAdmin Q s)) (moduleLoad P) later"

text \<open>Whether method 1 ends with credentials taken from the environment variable.\<close>

definition envYieldsCredentials :: "process \<Rightarrow> bool" where
  "envYieldsCredentials P =
     (case loadFromEnvVar P initial_state of
        Inr (Some json, source) \<Rightarrow> True
      | _ \<Rightarrow> False)"

text \<open>Whether a credential blob passes \<open>JSON.parse\<close> and the shape check.\<close>

definition accepted :: "process \<Rightarrow> string \<Rightarrow> bool" where
  "accepted P blob = (case parseAndValidate P blob of Inr parsed \<Rightarrow> True | Inl failure \<Rightarrow> False)"

text \<open>
  The shape check in the words of the specification: a non-null object that contains the
  three fields, whatever their values.
\<close>

definition spec_containsRequiredFields :: "json \<Rightarrow> bool" where
  "spec_containsRequiredFields parsed =
     (case parsed of
        JObject kvs \<Rightarrow>
          map_of kvs ''project_id'' \<noteq> None \<and> map_of kvs ''private_key'' \<noteq> None
          \<and> map_of kvs ''client_email'' \<noteq> None
      | _ \<Rightarrow> False)"

subsection \<open>The action \<open>listUsersAction\<close>\<close>

text \<open>
  The objects of the \<open>users\<close> array. \<open>isAdmin\<close> holds the JavaScript value the expression
  evaluates to (\<open>None\<close> is \<open>undefined\<close>), \<open>allowedSections\<close> the value chosen by the
  conditional expression.
\<close>

record DisplayUser =
  user_uid :: string
  user_email :: "string option"
  user_creationTime :: string
  user_lastSignInTime :: string
  user_disabled :: bool
  isAdmin :: "json option"
  allowedSections :: json

record ListUsersResult =
  success :: bool
  message :: string
  users :: "DisplayUser list option"

text \<open>\<open>userRecord.customClaims?.k\<close>.\<close>

definition customClaim :: "UserRecord \<Rightarrow> string \<Rightarrow> json option" where
  "customClaim userRecord k =
     (case customClaims userRecord of None \<Rightarrow> None | Some claims \<Rightarrow> map_of claims k)"

text \<open>
  \<open>!!claims?.admin || (env && uid === env)\<close>: when the left operand is false the value is
  that of the right operand, which is the variable itself when it is unset or empty.
\<close>

definition isAdminValue :: "process \<Rightarrow> UserRecord \<Rightarrow> json option" where
  "isAdminValue P userRecord =
     (if truthy (customClaim userRecord ''admin'') then Some (JBool True)
      else
        (case env_NEXT_PUBLIC_ADMIN_UID P of
           None \<Rightarrow> None
         | Some adminUid \<Rightarrow>
             if adminUid = [] then Some (JString [])
             else Some (JBool (uid userRecord = adminUid))))"

text \<open>\<open>Array.isArray\<close> on a custom claim.\<close>

fun isArray :: "json \<Rightarrow> bool" where
  "isArray (JArray xs) = True"
| "isArray v = False"

text \<open>
  \<open>Array.isArray(claims?.allowedSections) ? claims?.allowedSections : []\<close>; a missing claim
  is \<open>undefined\<close>, which is not an array.
\<close>

definition allowedSectionsValue :: "UserRecord \<Rightarrow> json" where
  "allowedSectionsValue userRecord =
     (case customClaim userRecord ''allowedSections'' of
        None \<Rightarrow> JArray []
      | Some claim \<Rightarrow> if isArray claim then claim else JArray [])"

definition toDisplayUser :: "process \<Rightarrow> UserRecord \<Rightarrow> DisplayUser" where
  "toDisplayUser P userRecord =
     \<lparr>user_uid = uid userRecord,
      user_email = email userRecord,
      user_creationTime = creationTime (metadata userRecord),
      user_lastSignInTime = lastSignInTime (metadata userRecord),
      user_disabled = disabled userRecord,
      isAdmin = isAdminValue P userRecord,
      allowedSections = allowedSectionsValue userRecord\<rparr>"

text \<open>
  The comparator handed to \<open>sort\<close>: the difference of the two times, most recent first.
  With a date that does not parse the difference is \<open>NaN\<close>, which \<open>sort\<close> reads as \<open>0\<close>.
\<close>

definition compareCreationTime :: "process \<Rightarrow> DisplayUser \<Rightarrow> DisplayUser \<Rightarrow> int" where
  "compareCreationTime P a b =
     (case (Date_getTime P (user_creationTime b), Date_getTime P (user_creationTime a)) of
        (Some tb, Some ta) \<Rightarrow> tb - ta
      | _ \<Rightarrow> 0)"

text \<open>
  \<open>Array.prototype.sort\<close> with a comparator. The language fixes its result only for a
  consistent comparator on the values of the array: every value compares equal to itself,
  comparing equal is symmetric and transitive, and so are comparing less and comparing
  greater.
\<close>

definition consistentComparator :: "('a \<Rightarrow> 'a \<Rightarrow> int) \<Rightarrow> 'a list \<Rightarrow> bool" where
  "consistentComparator cmp xs =
     (\<forall>a\<in>set xs. \<forall>b\<in>set xs. \<forall>c\<in>set xs.
        cmp a a = 0
        \<and> (cmp a b = 0 \<longrightarrow> cmp b a = 0)
        \<and> (cmp a b = 0 \<and> cmp b c = 0 \<longrightarrow> cmp a c = 0)
        \<and> (cmp a b < 0 \<and> cmp b c < 0 \<longrightarrow> cmp a c < 0)
        \<and> (cmp a b > 0 \<and> cmp b c > 0 \<longrightarrow> cmp a c > 0))"

text \<open>
  With a consistent comparator the sort is the stable sort: an element goes before the
  first element that it does not compare greater than, elements taken from the right.
\<close>

fun insertSorted :: "('a \<Rightarrow> 'a \<Rightarrow> int) \<Rightarrow> 'a \<Rightarrow> 'a list \<Rightarrow> 'a list" where
  "insertSorted cmp x [] = [x]"
| "insertSorted cmp x (y # ys) =
     (if cmp x y \<le> 0 then x # y # ys else y # insertSorted cmp x ys)"

definition stableSort :: "('a \<Rightarrow> 'a \<Rightarrow> int) \<Rightarrow> 'a list \<Rightarrow> 'a list" where
  "stableSort cmp xs = foldr (insertSorted cmp) xs []"

text \<open>
  With any other comparator the array is left in an order of the engine's choosing, some
  rearrangement of its elements. A rearrangement is given by positions: taking the elements
  from the right, each one is put back at its position among those already placed (at the
  end when the position is beyond it); with no positions left the elements stay as they are.
\<close>

definition insertAt :: "nat \<Rightarrow> 'a \<Rightarrow> 'a list \<Rightarrow> 'a list" where
  "insertAt p x ys = take p ys @ x # drop p ys"

fun arrange :: "nat list \<Rightarrow> 'a list \<Rightarrow> 'a list" where
  "arrange ps [] = []"
| "arrange [] (x # xs) = x # xs"
| "arrange (p # ps) (x # xs) = insertAt p x (arrange ps xs)"

definition array_sort :: "nat list \<Rightarrow> ('a \<Rightarrow> 'a \<Rightarrow> int) \<Rightarrow> 'a list \<Rightarrow> 'a list" where
  "array_sort order cmp xs =
     (if consistentComparator cmp xs then stableSort cmp xs else arrange order xs)"

definition fetchedMessage :: "nat \<Rightarrow> string" where
  "fetchedMessage n = ''Successfully fetched '' @ string_of_nat n @ '' users.''"

definition listFailureMessage :: "string \<Rightarrow> string" where
  "listFailureMessage m =
     ''Erreur lors de la r'' @ [CHR 0xE9] @ ''cup'' @ [CHR 0xE9]
     @ ''ration des utilisateurs: '' @ m"

definition criticalMessage :: "string \<Rightarrow> string" where
  "criticalMessage m =
     ''Erreur critique: Impossible d'' @ [CHR 0x27] @ ''initialiser Firebase Admin SDK. V''
     @ [CHR 0xE9] @ ''rifiez les logs du serveur. ('' @ m @ '')''"

text \<open>The body of the \<open>try\<close>: \<open>Inl\<close> is the error it throws.\<close>

definition listUsersTry :: "process \<Rightarrow> module_state \<Rightarrow> js_error + ListUsersResult" where
  "listUsersTry P s =
     (case getAdminAuth s of
        Inl error \<Rightarrow> Inl error
      | Inr adminAuth \<Rightarrow>
          (case auth_listUsers P adminAuth 1000 of
             Inl error \<Rightarrow> Inl error
           | Inr userRecords \<Rightarrow>
               let sortedUsers =
                     array_sort (Array_sort_order P) (compareCreationTime P)
                       (map (toDisplayUser P) userRecords)
               in Inr \<lparr>success = True,
                       message = fetchedMessage (length sortedUsers),
                       users = Some sortedUsers\<rparr>))"

text \<open>The \<open>catch\<close> block.\<close>

definition listUsersCatch :: "js_error \<Rightarrow> ListUsersResult" where
  "listUsersCatch error =
     (let errorMessage =
            (if str_includes (error_message error) ''Firebase Admin SDK access failed''
             then criticalMessage (error_message error)
             else listFailureMessage (error_message error))
      in \<lparr>success = False, message = errorMessage, users = None\<rparr>)"

text \<open>The action: \<open>Inl\<close> would be an error that escapes it (a rejected promise).\<close>

definition listUsersAction :: "process \<Rightarrow> module_state \<Rightarrow> js_error + ListUsersResult" where
  "listUsersAction P s =
     (case listUsersTry P s of
        Inr result \<Rightarrow> Inr result
      | Inl error \<Rightarrow> Inr (listUsersCatch error))"

text \<open>
  The provider's side of \<open>listUsers(maxResults)\<close>: an answer holds at most \<open>maxResults\<close>
  accounts.
\<close>

definition respectsMaxResults :: "process \<Rightarrow> bool" where
  "respectsMaxResults P =
     (\<forall>adminAuth maxResults userRecords.
        auth_listUsers P adminAuth maxResults = Inr userRecords
        \<longrightarrow> length userRecords \<le> maxResults)"

text \<open>Every listed user carries a creation time that \<open>Date\<close> can parse.\<close>

definition creationTimesParse :: "process \<Rightarrow> DisplayUser list \<Rightarrow> bool" where
  "creationTimesParse P listed =
     list_all (\<lambda>u. Date_getTime P (user_creationTime u) \<noteq> None) listed"

text \<open>The creation time of a listed user, in milliseconds; \<open>0\<close> stands for no time.\<close>

definition createdAt :: "process \<Rightarrow> DisplayUser \<Rightarrow> int" where
  "createdAt P u = (case Date_getTime P (user_creationTime u) of Some t \<Rightarrow> t | None \<Rightarrow> 0)"

subsection \<open>A process to run the code in\<close>

text \<open>
  A service account file with the three fields, no environment variable, an SDK without
  apps that accepts the credential, and a directory of three accounts.
\<close>

definition quoted :: "string \<Rightarrow> string" where
  "quoted s = [CHR 0x22] @ s @ [CHR 0x22]"

definition exampleKey :: string where
  "exampleKey =
     ''{'' @ quoted ''project_id'' @ '':'' @ quoted ''reportzen'' @ '',''
     @ quoted ''private_key'' @ '':'' @ quoted ''k'' @ '',''
     @ quoted ''client_email'' @ '':'' @ quoted ''a@b.c'' @ ''}''"

definition exampleKeyNoProject :: string where
  "exampleKeyNoProject =
     ''{'' @ quoted ''project_id'' @ '':'' @ quoted [] @ '',''
     @ quoted ''private_key'' @ '':'' @ quoted ''k'' @ '',''
     @ quoted ''client_email'' @ '':'' @ quoted ''a@b.c'' @ ''}''"

definition exampleParse :: "string \<Rightarrow> string + json" where
  "exampleParse text =
     (if text = exampleKey then
        Inr (JObject [(''project_id'', JString ''reportzen''), (''private_key'', JString ''k''),
                      (''client_email'', JString ''a@b.c'')])
      else if text = exampleKeyNoProject then
        Inr (JObject [(''project_id'', JString []), (''private_key'', JString ''k''),
                      (''client_email'', JString ''a@b.c'')])
      else if text = ''{}'' then Inr (JObject [])
      else Inl ''Unexpected token'')"

definition exampleGetTime :: "string \<Rightarrow> int option" where
  "exampleGetTime text =
     (if text = ''Tue, 01 Jan 2019 00:00:00 GMT'' then Some 1546300800000
      else if text = ''Wed, 01 Jan 2020 00:00:00 GMT'' then Some 1577836800000
      else None)"

definition exampleDirectory :: "UserRecord list" where
  "exampleDirectory =
     [\<lparr>uid = ''u1'', email = Some ''old@example.com'',
       metadata = \<lparr>creationTime = ''Tue, 01 Jan 2019 00:00:00 GMT'',
                   lastSignInTime = ''Wed, 01 Jan 2020 00:00:00 GMT''\<rparr>,
       disabled = False, customClaims = None\<rparr>,
      \<lparr>uid = ''u2'', email = None,
       metadata = \<lparr>creationTime = ''Wed, 01 Jan 2020 00:00:00 GMT'',
                   lastSignInTime = ''Wed, 01 Jan 2020 00:00:00 GMT''\<rparr>,
       disabled = False,
       customClaims = Some [(''admin'', JBool True), (''allowedSections'', JString ''all'')]\<rparr>,
      \<lparr>uid = ''u3'', email = Some ''new@example.com'',
       metadata = \<lparr>creationTime = ''Tue, 01 Jan 2019 00:00:00 GMT'',
                   lastSignInTime = ''Tue, 01 Jan 2019 00:00:00 GMT''\<rparr>,
       disabled = True,
       customClaims = Some [(''allowedSections'', JArray [JString ''reports''])]\<rparr>]"

text \<open>A directory with an account whose creation time is not a date.\<close>

definition exampleDirectoryUndated :: "UserRecord list" where
  "exampleDirectoryUndated =
     [\<lparr>uid = ''a1'', email = None,
       metadata = \<lparr>creationTime = ''Tue, 01 Jan 2019 00:00:00 GMT'', lastSignInTime = []\<rparr>,
       disabled = False, customClaims = None\<rparr>,
      \<lparr>uid = ''a2'', email = None,
       metadata = \<lparr>creationTime = ''unknown'', lastSignInTime = []\<rparr>,
       disabled = False, customClaims = None\<rparr>,
      \<lparr>uid = ''a3'', email = None,
       metadata = \<lparr>creationTime = ''Wed, 01 Jan 2020 00:00:00 GMT'', lastSignInTime = []\<rparr>,
       disabled = False, customClaims = None\<rparr>]"

definition exampleProcess :: process where
  "exampleProcess =
     \<lparr>env_FIREBASE_SERVICE_ACCOUNT_KEY = None,
      env_NEXT_PUBLIC_ADMIN_UID = None,
      JSON_parse = exampleParse,
      Date_getTime = exampleGetTime,
      path_resolve = ''/app/'' @ serviceAccountFilename,
      fs_existsSync = True,
      fs_readFileSync = Inr exampleKey,
      admin_apps = [],
      admin_auth = Inl \<lparr>error_code = Some ''app/no-app'', error_message = ''No default app''\<rparr>,
      admin_initializeApp = (\<lambda>serviceAccount. None),
      admin_auth_after_init = Inr (Auth ''[DEFAULT]''),
      admin_apps_after_failure = [],
      auth_listUsers = (\<lambda>adminAuth maxResults. Inr (take maxResults exampleDirectory)),
      Array_sort_order = []\<rparr>"

subsection \<open>The state after a completed attempt\<close>

text \<open>The attempt is marked, and exactly one of the handle and the failure is there.\<close>

definition settled :: "module_state \<Rightarrow> bool" where
  "settled s = (isInitialized s \<and> (adminAuthInstance s = None) \<noteq> (initializationError s = None))"

section \<open>Properties of the admin module\<close>

lemmas example_defs = exampleProcess_def exampleParse_def exampleKey_def exampleKeyNoProject_def
  quoted_def exampleGetTime_def exampleDirectory_def exampleDirectoryUndated_def

lemmas admin_defs = initializeFirebaseAdmin_def loadFromEnvVar_def loadFromLocalFile_def
  initializeSdk_def tryInitializeApp_def parseAndValidate_def credentialsInvalid_def
  returned_def threw_def initial_state_def moduleLoad_def afterBootstrap_def trim_def
  isWhiteSpace_def new_Error_def

lemma loadFromEnvVar_stop:
  "loadFromEnvVar P s = Inl s' \<Longrightarrow> \<exists>e. s' = s\<lparr>initializationError := Some e\<rparr>"
  by (auto simp: loadFromEnvVar_def split: option.splits if_splits sum.splits prod.splits)

lemma loadFromLocalFile_stop:
  "loadFromLocalFile P s j c = Inl (s', calls) \<Longrightarrow> \<exists>e. s' = s\<lparr>initializationError := Some e\<rparr>"
  by (auto simp: loadFromLocalFile_def split: option.splits if_splits sum.splits prod.splits)

lemma initializeSdk_returned:
  "thrown (initializeSdk P s j c calls) = None \<Longrightarrow> isInitialized s \<Longrightarrow>
   settled (final (initializeSdk P s j c calls))"
  by (auto simp: initializeSdk_def settled_def returned_def threw_def
      split: option.splits if_splits sum.splits prod.splits list.splits)

lemma initializeSdk_threw:
  "thrown (initializeSdk P s j c calls) = Some e \<Longrightarrow> final (initializeSdk P s j c calls) = s"
  by (auto simp: initializeSdk_def returned_def threw_def
      split: option.splits if_splits sum.splits prod.splits list.splits)

lemma initializeSdk_flag:
  "isInitialized s \<Longrightarrow> isInitialized (final (initializeSdk P s j c calls))"
  by (auto simp: initializeSdk_def returned_def threw_def
      split: option.splits if_splits sum.splits prod.splits list.splits)

lemma initializeFirebaseAdmin_cases:
  assumes "\<not> isInitialized s"
  obtains (stopped) e calls where
      "initializeFirebaseAdmin P s =
         returned (s\<lparr>isInitialized := True, initializationError := Some e\<rparr>) calls"
    | (sdk) j c calls where
      "initializeFirebaseAdmin P s = initializeSdk P (s\<lparr>isInitialized := True\<rparr>) j c calls"
proof -
  let ?s = "s\<lparr>isInitialized := True\<rparr>"
  show ?thesis
  proof (cases "loadFromEnvVar P ?s")
    case (Inl st)
    with loadFromEnvVar_stop obtain e where "st = ?s\<lparr>initializationError := Some e\<rparr>"
      by blast
    with Inl assms show ?thesis
      by (intro stopped [of e "[]"]) (simp add: initializeFirebaseAdmin_def Let_def)
  next
    case (Inr a)
    obtain ej es where a: "a = (ej, es)" by (cases a)
    show ?thesis
    proof (cases "loadFromLocalFile P ?s ej es")
      case (Inl b)
      obtain st calls where b: "b = (st, calls)" by (cases b)
      from Inl b loadFromLocalFile_stop obtain e where "st = ?s\<lparr>initializationError := Some e\<rparr>"
        by blast
      with assms Inr a Inl b show ?thesis
        by (intro stopped [of e calls]) (simp add: initializeFirebaseAdmin_def Let_def)
    next
      case inr: (Inr c)
      obtain j src calls where c: "c = (j, src, calls)" by (cases c)
      show ?thesis
      proof (cases "or_else j [] = []")
        case True
        with assms Inr a inr c show ?thesis
          by (intro stopped [of "new_Error (noCredentialsFailure P)" calls])
            (auto simp: initializeFirebaseAdmin_def Let_def split: option.splits if_splits)
      next
        case False
        then obtain json where "j = Some json" "json \<noteq> []"
          by (cases j) (auto split: if_splits)
        with assms Inr a inr c show ?thesis
          by (intro sdk [of json src calls]) (simp add: initializeFirebaseAdmin_def Let_def)
      qed
    qed
  qed
qed

lemma initializeFirebaseAdmin_first_returned:
  assumes "\<not> isInitialized s" "adminAuthInstance s = None"
    "thrown (initializeFirebaseAdmin P s) = None"
  shows "settled (final (initializeFirebaseAdmin P s))"
  using assms(1)
proof (cases rule: initializeFirebaseAdmin_cases [of s P])
  case (stopped e calls)
  with assms show ?thesis by (simp add: returned_def settled_def)
next
  case (sdk j c calls)
  with assms initializeSdk_returned [of P "s\<lparr>isInitialized := True\<rparr>" j c calls]
  show ?thesis by simp
qed

lemma initializeFirebaseAdmin_flag: "isInitialized (final (initializeFirebaseAdmin P s))"
proof (cases "isInitialized s")
  case True
  then show ?thesis by (simp add: initializeFirebaseAdmin_def returned_def)
next
  case False
  then show ?thesis
  proof (cases rule: initializeFirebaseAdmin_cases [of s P])
    case (stopped e calls)
    then show ?thesis by (simp add: returned_def)
  next
    case (sdk j c calls)
    then show ?thesis by (simp add: initializeSdk_flag)
  qed
qed

lemma initializeFirebaseAdmin_done:
  "isInitialized s \<Longrightarrow> initializeFirebaseAdmin P s = returned s []"
  by (simp add: initializeFirebaseAdmin_def)

lemma initializeFirebaseAdmin_threw:
  assumes "thrown (initializeFirebaseAdmin P s) = Some e"
  shows "final (initializeFirebaseAdmin P s) = s\<lparr>isInitialized := True\<rparr>"
  using assms initializeSdk_threw [of P "s\<lparr>isInitialized := True\<rparr>"]
  by (auto simp: initializeFirebaseAdmin_def Let_def returned_def
      split: if_splits sum.splits prod.splits option.splits)

lemma moduleLoad_settled: "settled (moduleLoad P)"
proof (cases "thrown (initializeFirebaseAdmin P initial_state)")
  case None
  then show ?thesis
    using initializeFirebaseAdmin_first_returned [of initial_state P]
    by (simp add: moduleLoad_def Let_def initial_state_def)
next
  case (Some e)
  then show ?thesis
    using initializeFirebaseAdmin_threw [of P initial_state e]
    by (simp add: moduleLoad_def Let_def initial_state_def settled_def)
qed

lemma afterBootstrap_moduleLoad: "afterBootstrap P later = moduleLoad P"
proof -
  have "settled s \<Longrightarrow> foldl (\<lambda>s Q. final (initializeFirebaseAdmin Q s)) s later = s" for s
    by (induction later) (simp_all add: settled_def initializeFirebaseAdmin_done returned_def)
  then show ?thesis
    by (simp add: afterBootstrap_def moduleLoad_settled)
qed

lemma afterBootstrap_settled: "settled (afterBootstrap P later)"
  by (simp add: afterBootstrap_moduleLoad moduleLoad_settled)

lemma exampleProcess_initialize: "initializeFirebaseAdmin exampleProcess initial_state =
   returned \<lparr>adminAuthInstance = Some (Auth ''[DEFAULT]''), initializationError = None,
      isInitialized = True, initializedVia = Some (''local file ('' @ serviceAccountFilename @ '')'')\<rparr>
     [Fs_existsSync, Fs_readFileSync, Admin_apps, Admin_initializeApp, Admin_auth]"
  by (simp add: admin_defs example_defs)

lemma exampleProcess_moduleLoad: "moduleLoad exampleProcess =
   \<lparr>adminAuthInstance = Some (Auth ''[DEFAULT]''), initializationError = None,
      isInitialized = True, initializedVia = Some (''local file ('' @ serviceAccountFilename @ '')'')\<rparr>"
  by (simp add: moduleLoad_def exampleProcess_initialize returned_def)

subsection \<open>Initialisation runs once\<close>

text \<open>
  Claim C5. When \<open>isInitialized\<close> is already set, a call of \<open>initializeFirebaseAdmin\<close>
  returns with the module variables as they were (so \<open>adminAuthInstance\<close>,
  \<open>initializationError\<close> and \<open>initializedVia\<close> are unchanged), throws nothing and calls
  neither the file system nor the SDK. Every call leaves \<open>isInitialized\<close> set, so every call
  after the first is of this kind.
\<close>

theorem initializeFirebaseAdmin_once:
  "(isInitialized s \<longrightarrow>
      final (initializeFirebaseAdmin P s) = s
      \<and> thrown (initializeFirebaseAdmin P s) = None
      \<and> io (initializeFirebaseAdmin P s) = [])
   \<and> isInitialized (final (initializeFirebaseAdmin P s))"
proof -
  note flag = initializeFirebaseAdmin_flag [of P s]
  show ?thesis using flag by (simp add: initializeFirebaseAdmin_done returned_def)
qed

theorem initializeFirebaseAdmin_once_witness:
  "final (initializeFirebaseAdmin exampleProcess
            \<lparr>adminAuthInstance = None, initializationError = Some (new_Error ''failed''),
             isInitialized = True, initializedVia = None\<rparr>)
     = \<lparr>adminAuthInstance = None, initializationError = Some (new_Error ''failed''),
        isInitialized = True, initializedVia = None\<rparr>
   \<and> isInitialized (final (initializeFirebaseAdmin exampleProcess initial_state))"
  using initializeFirebaseAdmin_once [of
      "\<lparr>adminAuthInstance = None, initializationError = Some (new_Error ''failed''),
        isInitialized = True, initializedVia = None\<rparr>" exampleProcess]
    initializeFirebaseAdmin_once [of initial_state exampleProcess]
  by simp

subsection \<open>Handle and failure exclude each other\<close>

text \<open>
  Claim C6. After the module-load call, and after any further calls of
  \<open>initializeFirebaseAdmin\<close>, the module never holds both a client handle and a recorded
  failure; the same is true of the variables \<open>initializeFirebaseAdmin\<close> itself leaves
  behind when it is run on the initial variables, whether it returns or throws.
\<close>

theorem handle_and_failure_exclusive:
  "\<not> (adminAuthInstance (afterBootstrap P later) \<noteq> None
       \<and> initializationError (afterBootstrap P later) \<noteq> None)
   \<and> \<not> (adminAuthInstance (final (initializeFirebaseAdmin P initial_state)) \<noteq> None
       \<and> initializationError (final (initializeFirebaseAdmin P initial_state)) \<noteq> None)"
proof -
  have "settled (afterBootstrap P later)"
    by (rule afterBootstrap_settled)
  then have first: "\<not> (adminAuthInstance (afterBootstrap P later) \<noteq> None
       \<and> initializationError (afterBootstrap P later) \<noteq> None)"
    by (auto simp: settled_def)
  have second: "\<not> (adminAuthInstance (final (initializeFirebaseAdmin P initial_state)) \<noteq> None
       \<and> initializationError (final (initializeFirebaseAdmin P initial_state)) \<noteq> None)"
  proof (cases "thrown (initializeFirebaseAdmin P initial_state)")
    case None
    then have "settled (final (initializeFirebaseAdmin P initial_state))"
      by (intro initializeFirebaseAdmin_first_returned) (simp_all add: initial_state_def)
    then show ?thesis by (auto simp: settled_def)
  next
    case (Some e)
    then show ?thesis
      by (simp add: initializeFirebaseAdmin_threw initial_state_def)
  qed
  from first second show ?thesis by (rule conjI)
qed

lemma exampleProcess_authThrows:
  "moduleLoad (exampleProcess\<lparr>admin_apps := [None]\<rparr>) =
     \<lparr>adminAuthInstance = None,
      initializationError =
        Some \<lparr>error_code = Some ''app/no-app'', error_message = ''No default app''\<rparr>,
      isInitialized = True, initializedVia = None\<rparr>"
  by (simp add: admin_defs example_defs)

theorem handle_and_failure_exclusive_witness:
  "adminAuthInstance (afterBootstrap exampleProcess [exampleProcess]) = Some (Auth ''[DEFAULT]'')
   \<and> initializationError (afterBootstrap exampleProcess [exampleProcess]) = None
   \<and> adminAuthInstance (afterBootstrap (exampleProcess\<lparr>admin_apps := [None]\<rparr>) []) = None
   \<and> initializationError (afterBootstrap (exampleProcess\<lparr>admin_apps := [None]\<rparr>) []) =
       Some \<lparr>error_code = Some ''app/no-app'', error_message = ''No default app''\<rparr>"
  using handle_and_failure_exclusive [of exampleProcess "[exampleProcess]"]
    handle_and_failure_exclusive [of "exampleProcess\<lparr>admin_apps := [None]\<rparr>" "[]"]
  by (simp add: afterBootstrap_def exampleProcess_moduleLoad exampleProcess_authThrows
      initializeFirebaseAdmin_done returned_def)

subsection \<open>\<open>getAdminAuth\<close> after the bootstrap\<close>


lemma exampleProcess_noFile:
  "moduleLoad (exampleProcess\<lparr>fs_existsSync := False\<rparr>) =
     \<lparr>adminAuthInstance = None,
      initializationError =
        Some (new_Error (noCredentialsFailure (exampleProcess\<lparr>fs_existsSync := False\<rparr>))),
      isInitialized = True, initializedVia = None\<rparr>"
  by (simp add: admin_defs example_defs)


subsection \<open>The loading sequence\<close>

lemma loadFromEnvVar_unusable:
  "\<not> envVarUsable P \<Longrightarrow> loadFromEnvVar P s = Inr (None, None)"
  by (auto simp: envVarUsable_def loadFromEnvVar_def split: option.splits)

lemma loadFromEnvVar_usable:
  assumes "envVarUsable P" "env_FIREBASE_SERVICE_ACCOUNT_KEY P = Some blob"
  shows "loadFromEnvVar P s =
     (case parseAndValidate P blob of
        Inl (syntax, m) \<Rightarrow> Inl (s\<lparr>initializationError := Some (new_Error (envParseFailure m))\<rparr>)
      | Inr parsed \<Rightarrow> Inr (Some blob, Some ''environment variable''))"
  using assms by (simp add: envVarUsable_def loadFromEnvVar_def)

lemma envVarUsable_nonempty:
  "envVarUsable P \<Longrightarrow> env_FIREBASE_SERVICE_ACCOUNT_KEY P = Some blob \<Longrightarrow> blob \<noteq> []"
  by (simp add: envVarUsable_def)

lemma envYieldsCredentials_iff:
  "envYieldsCredentials P \<longleftrightarrow>
     (\<exists>blob. env_FIREBASE_SERVICE_ACCOUNT_KEY P = Some blob \<and> envVarUsable P \<and> accepted P blob)"
  by (auto simp: envYieldsCredentials_def loadFromEnvVar_def envVarUsable_def accepted_def
      split: option.splits sum.splits prod.splits if_splits)

lemma loadFromLocalFile_skipped:
  "j \<noteq> [] \<Longrightarrow> loadFromLocalFile P s (Some j) c = Inr (Some j, c, [])"
  by (simp add: loadFromLocalFile_def)

lemma initializeFirebaseAdmin_env_accepted:
  assumes "\<not> isInitialized s" "envVarUsable P" "env_FIREBASE_SERVICE_ACCOUNT_KEY P = Some blob"
    "accepted P blob"
  shows "initializeFirebaseAdmin P s =
     initializeSdk P (s\<lparr>isInitialized := True\<rparr>) blob (Some ''environment variable'') []"
proof -
  have "loadFromEnvVar P (s\<lparr>isInitialized := True\<rparr>) =
      Inr (Some blob, Some ''environment variable'')"
    using assms by (simp add: loadFromEnvVar_usable accepted_def split: sum.splits)
  moreover have "blob \<noteq> []"
    using assms by (simp add: envVarUsable_def)
  ultimately show ?thesis
    using assms(1) by (simp add: initializeFirebaseAdmin_def Let_def loadFromLocalFile_skipped)
qed

lemma initializeFirebaseAdmin_env_rejected:
  assumes "\<not> isInitialized s" "envVarUsable P" "env_FIREBASE_SERVICE_ACCOUNT_KEY P = Some blob"
    "\<not> accepted P blob"
  shows "\<exists>m. initializeFirebaseAdmin P s =
     returned (s\<lparr>isInitialized := True,
                  initializationError := Some (new_Error (envParseFailure m))\<rparr>) []"
  using assms
  by (auto simp: initializeFirebaseAdmin_def Let_def loadFromEnvVar_usable accepted_def
      split: sum.splits)

lemma initializeFirebaseAdmin_file_accepted:
  assumes "\<not> isInitialized s" "\<not> envVarUsable P" "fs_existsSync P"
    "fs_readFileSync P = Inr blob" "trim blob \<noteq> []" "accepted P blob"
  shows "initializeFirebaseAdmin P s =
     initializeSdk P (s\<lparr>isInitialized := True\<rparr>) blob
       (Some (''local file ('' @ serviceAccountFilename @ '')'')) [Fs_existsSync, Fs_readFileSync]"
proof -
  from assms(5) have "blob \<noteq> []" by (auto simp: trim_def)
  with assms show ?thesis
    by (simp add: initializeFirebaseAdmin_def Let_def loadFromEnvVar_unusable accepted_def
        loadFromLocalFile_def split: sum.splits)
qed

lemma initializeFirebaseAdmin_file_rejected:
  assumes "\<not> isInitialized s" "\<not> envVarUsable P" "fs_existsSync P"
    "fs_readFileSync P = Inr blob" "trim blob \<noteq> []" "\<not> accepted P blob"
  shows "\<exists>m. initializeFirebaseAdmin P s =
     returned (s\<lparr>isInitialized := True, initializationError := Some (new_Error m)\<rparr>)
       [Fs_existsSync, Fs_readFileSync]"
  using assms
  by (auto simp: initializeFirebaseAdmin_def Let_def loadFromEnvVar_unusable accepted_def
        loadFromLocalFile_def split: sum.splits)

lemma initializeFirebaseAdmin_file_blank:
  assumes "\<not> isInitialized s" "\<not> envVarUsable P" "fs_existsSync P"
    "fs_readFileSync P = Inr blob" "trim blob = []"
  shows "initializeFirebaseAdmin P s =
     returned (s\<lparr>isInitialized := True,
                  initializationError := Some (new_Error (noCredentialsFailure P))\<rparr>)
       [Fs_existsSync, Fs_readFileSync]"
  using assms
  by (simp add: initializeFirebaseAdmin_def Let_def loadFromEnvVar_unusable loadFromLocalFile_def)

lemma accepted_iff:
  "accepted P blob \<longleftrightarrow>
     (\<exists>kvs. JSON_parse P blob = Inr (JObject kvs)
        \<and> truthy (map_of kvs ''project_id'') \<and> truthy (map_of kvs ''private_key'')
        \<and> truthy (map_of kvs ''client_email''))"
proof (cases "JSON_parse P blob")
  case (Inl m)
  then show ?thesis by (simp add: accepted_def parseAndValidate_def)
next
  case (Inr parsed)
  then show ?thesis
    by (cases parsed) (simp_all add: accepted_def parseAndValidate_def credentialsInvalid_def)
qed

lemma initializeSdk_io:
  "\<exists>more. io (initializeSdk P s j c calls) = calls @ Admin_apps # more
      \<and> set more \<subseteq> {Admin_apps, Admin_initializeApp, Admin_auth, App_auth}"
  by (auto simp: initializeSdk_def tryInitializeApp_def returned_def threw_def
      split: option.splits if_splits sum.splits prod.splits list.splits)

lemma loadFromLocalFile_calls:
  "loadFromLocalFile P s None c = Inl (st, calls) \<Longrightarrow> \<exists>rest. calls = Fs_existsSync # rest"
  "loadFromLocalFile P s None c = Inr (j, c', calls) \<Longrightarrow> \<exists>rest. calls = Fs_existsSync # rest"
  by (auto simp: loadFromLocalFile_def split: option.splits if_splits sum.splits prod.splits)

lemma initializeFirebaseAdmin_file_first:
  assumes "\<not> isInitialized s" "\<not> envVarUsable P"
  shows "\<exists>rest. io (initializeFirebaseAdmin P s) = Fs_existsSync # rest"
proof (cases "loadFromLocalFile P (s\<lparr>isInitialized := True\<rparr>) None None")
  case (Inl a)
  obtain st calls where a: "a = (st, calls)" by (cases a)
  with Inl loadFromLocalFile_calls(1) obtain rest where "calls = Fs_existsSync # rest" by blast
  with assms Inl a show ?thesis
    by (simp add: initializeFirebaseAdmin_def Let_def loadFromEnvVar_unusable returned_def)
next
  case (Inr b)
  obtain j c calls where b: "b = (j, c, calls)" by (cases b)
  with Inr loadFromLocalFile_calls(2) obtain rest where rest: "calls = Fs_existsSync # rest" by blast
  obtain more where "io (initializeSdk P (s\<lparr>isInitialized := True\<rparr>) (the j) c calls) = calls @ Admin_apps # more"
    using initializeSdk_io by blast
  with assms Inr b rest show ?thesis
    by (auto simp: initializeFirebaseAdmin_def Let_def loadFromEnvVar_unusable returned_def
        split: option.splits)
qed

lemma initializeFirebaseAdmin_env_no_file:
  assumes "\<not> isInitialized s" "envVarUsable P"
  shows "Fs_existsSync \<notin> set (io (initializeFirebaseAdmin P s))"
proof -
  from assms(2) obtain blob where blob: "env_FIREBASE_SERVICE_ACCOUNT_KEY P = Some blob"
    by (auto simp: envVarUsable_def split: option.splits)
  show ?thesis
  proof (cases "accepted P blob")
    case True
    obtain more where "io (initializeSdk P (s\<lparr>isInitialized := True\<rparr>) blob
          (Some ''environment variable'') []) = [] @ Admin_apps # more"
        "set more \<subseteq> {Admin_apps, Admin_initializeApp, Admin_auth, App_auth}"
      using initializeSdk_io by blast
    with True assms blob show ?thesis
      by (auto simp: initializeFirebaseAdmin_env_accepted)
  next
    case False
    with assms blob initializeFirebaseAdmin_env_rejected [of s P blob] show ?thesis
      by (auto simp: returned_def)
  qed
qed

lemma initializeSdk_existing_app:
  assumes "admin_apps P \<noteq> []"
  shows "initializeSdk P s json source calls =
     (case admin_auth P of
        Inr instance \<Rightarrow>
          returned (s\<lparr>adminAuthInstance := Some instance,
                       initializedVia := Some (or_else source ''existing app detection''),
                       initializationError := None\<rparr>) (calls @ [Admin_apps, Admin_auth])
      | Inl error \<Rightarrow> threw s error (calls @ [Admin_apps, Admin_auth]))"
  using assms by (simp add: initializeSdk_def split: sum.splits)

lemma initializeSdk_new_app:
  assumes "admin_apps P = []" "JSON_parse P json = Inr serviceAccount"
    "admin_initializeApp P serviceAccount = None" "admin_auth_after_init P = Inr instance"
  shows "initializeSdk P s json source calls =
     returned (s\<lparr>adminAuthInstance := Some instance, initializedVia := source,
                  initializationError := None\<rparr>)
       (calls @ [Admin_apps, Admin_initializeApp, Admin_auth])"
  using assms by (simp add: initializeSdk_def tryInitializeApp_def)

lemma initializeSdk_initializeApp_throws:
  assumes "admin_apps P = []" "JSON_parse P json = Inr serviceAccount"
    "admin_initializeApp P serviceAccount = Some error"
    "error_code error \<noteq> Some ''app/duplicate-app''"
  shows "initializeSdk P s json source calls =
     returned (s\<lparr>initializationError :=
                    Some (new_Error (initializeAppFailure source (error_message error))),
                  adminAuthInstance := None\<rparr>)
       (calls @ [Admin_apps, Admin_initializeApp])"
  using assms by (simp add: initializeSdk_def tryInitializeApp_def)

lemma initializeSdk_auth_throws:
  assumes "admin_apps P = []" "JSON_parse P json = Inr serviceAccount"
    "admin_initializeApp P serviceAccount = None" "admin_auth_after_init P = Inl error"
    "error_code error \<noteq> Some ''app/duplicate-app''"
  shows "initializeSdk P s json source calls =
     returned (s\<lparr>initializationError :=
                    Some (new_Error (initializeAppFailure source (error_message error))),
                  adminAuthInstance := None\<rparr>)
       (calls @ [Admin_apps, Admin_initializeApp, Admin_auth])"
  using assms by (simp add: initializeSdk_def tryInitializeApp_def)

lemma initializeSdk_duplicate_app:
  assumes "admin_apps P = []" "JSON_parse P json = Inr serviceAccount"
    "admin_initializeApp P serviceAccount = Some error"
    "error_code error = Some ''app/duplicate-app''"
  shows "initializeSdk P s json source calls =
     (case admin_apps_after_failure P of
        Some (Inr instance) # rest \<Rightarrow>
          returned (s\<lparr>adminAuthInstance := Some instance,
                       initializedVia := Some (or_else source ''existing app detection''),
                       initializationError := None\<rparr>)
            (calls @ [Admin_apps, Admin_initializeApp, Admin_apps, App_auth])
      | Some (Inl authError) # rest \<Rightarrow>
          threw s authError (calls @ [Admin_apps, Admin_initializeApp, Admin_apps, App_auth])
      | _ \<Rightarrow>
          returned (s\<lparr>initializationError :=
                         Some (new_Error (duplicateAppFailure (error_message error))),
                       adminAuthInstance := None\<rparr>)
            (calls @ [Admin_apps, Admin_initializeApp, Admin_apps]))"
  using assms
  by (simp add: initializeSdk_def tryInitializeApp_def split: list.splits option.splits sum.splits)

lemma accepted_parses: "accepted P blob \<Longrightarrow> \<exists>parsed. JSON_parse P blob = Inr parsed"
  by (auto simp: accepted_def parseAndValidate_def split: sum.splits)

lemma initializeSdk_try_fails:
  assumes "admin_apps P = []" "JSON_parse P json = Inr serviceAccount"
    and "admin_initializeApp P serviceAccount = Some error
         \<or> admin_initializeApp P serviceAccount = None \<and> admin_auth_after_init P = Inl error"
  shows "\<exists>tried. initializeSdk P s json source calls =
     (if error_code error = Some ''app/duplicate-app'' then
        (case admin_apps_after_failure P of
           Some (Inr instance) # rest \<Rightarrow>
             returned (s\<lparr>adminAuthInstance := Some instance,
                          initializedVia := Some (or_else source ''existing app detection''),
                          initializationError := None\<rparr>)
               (calls @ [Admin_apps] @ tried @ [Admin_apps, App_auth])
         | Some (Inl authError) # rest \<Rightarrow>
             threw s authError (calls @ [Admin_apps] @ tried @ [Admin_apps, App_auth])
         | _ \<Rightarrow>
             returned (s\<lparr>initializationError :=
                            Some (new_Error (duplicateAppFailure (error_message error))),
                          adminAuthInstance := None\<rparr>)
               (calls @ [Admin_apps] @ tried @ [Admin_apps]))
      else
        returned (s\<lparr>initializationError :=
                       Some (new_Error (initializeAppFailure source (error_message error))),
                     adminAuthInstance := None\<rparr>)
          (calls @ [Admin_apps] @ tried))"
proof -
  from assms(3) have "tryInitializeApp P json = (Inl error, [Admin_initializeApp])
      \<or> tryInitializeApp P json = (Inl error, [Admin_initializeApp, Admin_auth])"
    using assms(2) by (auto simp: tryInitializeApp_def)
  then show ?thesis
  proof
    assume "tryInitializeApp P json = (Inl error, [Admin_initializeApp])"
    with assms(1) show ?thesis
      by (intro exI [of _ "[Admin_initializeApp]"])
        (simp add: initializeSdk_def split: list.splits option.splits sum.splits)
  next
    assume "tryInitializeApp P json = (Inl error, [Admin_initializeApp, Admin_auth])"
    with assms(1) show ?thesis
      by (intro exI [of _ "[Admin_initializeApp, Admin_auth]"])
        (simp add: initializeSdk_def split: list.splits option.splits sum.splits)
  qed
qed

text \<open>
  Claim C1, as the specification words it: whenever the environment variable does not
  yield valid credentials, the local file is tried next. It fails for a variable that is
  set to text that is not JSON: the file is there and holds valid credentials, yet it is
  never looked at and no handle is built.
\<close>

theorem localFile_tried_counterexample:
  "\<not> envYieldsCredentials (exampleProcess\<lparr>env_FIREBASE_SERVICE_ACCOUNT_KEY := Some ''not json''\<rparr>)
   \<and> fs_existsSync (exampleProcess\<lparr>env_FIREBASE_SERVICE_ACCOUNT_KEY := Some ''not json''\<rparr>)
   \<and> fs_readFileSync (exampleProcess\<lparr>env_FIREBASE_SERVICE_ACCOUNT_KEY := Some ''not json''\<rparr>)
       = Inr exampleKey
   \<and> accepted (exampleProcess\<lparr>env_FIREBASE_SERVICE_ACCOUNT_KEY := Some ''not json''\<rparr>) exampleKey
   \<and> Fs_existsSync \<notin> set (io (initializeFirebaseAdmin
         (exampleProcess\<lparr>env_FIREBASE_SERVICE_ACCOUNT_KEY := Some ''not json''\<rparr>) initial_state))
   \<and> adminAuthInstance
         (moduleLoad (exampleProcess\<lparr>env_FIREBASE_SERVICE_ACCOUNT_KEY := Some ''not json''\<rparr>)) = None"
  by (simp add: envYieldsCredentials_def accepted_def admin_defs example_defs)

text \<open>
  Claim C1, amended. On a first call (\<open>isInitialized\<close> not set) the local file is tried
  exactly when the environment variable is unset, empty, blank or \<open>{}\<close> after trimming, and
  then the file is the first thing looked at. A variable with any other value is parsed and
  checked: when it fails, the call stops there with the failure recorded and without a look
  at the file system or the SDK; when it passes, the file is not looked at.

  With credentials loaded from either source, the blob parses to a service account and the
  SDK step runs on it:
  \<^item> when the SDK already has an app, \<open>initializeApp\<close> is not called: the handle memoized
    is \<open>admin.auth()\<close> of the existing app (and if that throws, the call throws with only
    \<open>isInitialized\<close> changed);
  \<^item> when it has none, \<open>initializeApp\<close> is called once with the parsed service account,
    and if it and \<open>admin.auth()\<close> succeed the handle is memoized;
  \<^item> when either of the two throws an error other than \<open>app/duplicate-app\<close>, the failure
    is recorded and no handle is kept;
  \<^item> when the error is \<open>app/duplicate-app\<close>, the handle is \<open>auth()\<close> of the first existing
    app if there is one (the call throws if that throws), and the failure is recorded
    otherwise.

  A memoized handle comes with no recorded failure and with \<open>initializedVia\<close> naming the
  source of the credentials.
\<close>

theorem credential_sequence:
  assumes "\<not> isInitialized s"
  shows "(Fs_existsSync \<in> set (io (initializeFirebaseAdmin P s)) \<longleftrightarrow> \<not> envVarUsable P)
    \<and> (\<not> envVarUsable P \<longrightarrow> (\<exists>rest. io (initializeFirebaseAdmin P s) = Fs_existsSync # rest))
    \<and> (envVarUsable P \<and> \<not> envYieldsCredentials P \<longrightarrow>
          (\<exists>m. initializeFirebaseAdmin P s =
             returned (s\<lparr>isInitialized := True,
                          initializationError := Some (new_Error (envParseFailure m))\<rparr>) []))
    \<and> (\<forall>envVarValue. envYieldsCredentials P
            \<and> env_FIREBASE_SERVICE_ACCOUNT_KEY P = Some envVarValue \<longrightarrow>
          initializeFirebaseAdmin P s =
            initializeSdk P (s\<lparr>isInitialized := True\<rparr>) envVarValue
              (Some ''environment variable'') [])
    \<and> (\<forall>blob source calls.
          (envYieldsCredentials P \<and> env_FIREBASE_SERVICE_ACCOUNT_KEY P = Some blob
             \<and> source = ''environment variable'' \<and> calls = []
           \<or> \<not> envVarUsable P \<and> fs_existsSync P \<and> fs_readFileSync P = Inr blob
             \<and> trim blob \<noteq> [] \<and> accepted P blob
             \<and> source = ''local file ('' @ serviceAccountFilename @ '')''
             \<and> calls = [Fs_existsSync, Fs_readFileSync])
          \<longrightarrow>
          (\<exists>serviceAccount. JSON_parse P blob = Inr serviceAccount
             \<and> (admin_apps P \<noteq> [] \<longrightarrow>
                  initializeFirebaseAdmin P s =
                    (case admin_auth P of
                       Inr instance \<Rightarrow>
                         returned (s\<lparr>isInitialized := True, adminAuthInstance := Some instance,
                                      initializedVia := Some source,
                                      initializationError := None\<rparr>)
                           (calls @ [Admin_apps, Admin_auth])
                     | Inl error \<Rightarrow>
                         threw (s\<lparr>isInitialized := True\<rparr>) error
                           (calls @ [Admin_apps, Admin_auth])))
             \<and> (\<forall>instance. admin_apps P = [] \<and> admin_initializeApp P serviceAccount = None
                    \<and> admin_auth_after_init P = Inr instance \<longrightarrow>
                  initializeFirebaseAdmin P s =
                    returned (s\<lparr>isInitialized := True, adminAuthInstance := Some instance,
                                 initializedVia := Some source, initializationError := None\<rparr>)
                      (calls @ [Admin_apps, Admin_initializeApp, Admin_auth]))
             \<and> (\<forall>error. admin_apps P = []
                    \<and> (admin_initializeApp P serviceAccount = Some error
                        \<or> admin_initializeApp P serviceAccount = None
                          \<and> admin_auth_after_init P = Inl error) \<longrightarrow>
                  (if error_code error = Some ''app/duplicate-app'' then
                     (case admin_apps_after_failure P of
                        Some (Inr instance) # rest \<Rightarrow>
                          thrown (initializeFirebaseAdmin P s) = None
                          \<and> final (initializeFirebaseAdmin P s) =
                              s\<lparr>isInitialized := True, adminAuthInstance := Some instance,
                                initializedVia := Some source, initializationError := None\<rparr>
                      | Some (Inl authError) # rest \<Rightarrow>
                          thrown (initializeFirebaseAdmin P s) = Some authError
                          \<and> final (initializeFirebaseAdmin P s) = s\<lparr>isInitialized := True\<rparr>
                      | _ \<Rightarrow>
                          thrown (initializeFirebaseAdmin P s) = None
                          \<and> final (initializeFirebaseAdmin P s) =
                              s\<lparr>isInitialized := True,
                                initializationError :=
                                  Some (new_Error (duplicateAppFailure (error_message error))),
                                adminAuthInstance := None\<rparr>)
                   else
                     thrown (initializeFirebaseAdmin P s) = None
                     \<and> final (initializeFirebaseAdmin P s) =
                         s\<lparr>isInitialized := True,
                           initializationError :=
                             Some (new_Error
                               (initializeAppFailure (Some source) (error_message error))),
                           adminAuthInstance := None\<rparr>))))"
proof -
  let ?s = "s\<lparr>isInitialized := True\<rparr>"
  have tried: "Fs_existsSync \<in> set (io (initializeFirebaseAdmin P s)) \<longleftrightarrow> \<not> envVarUsable P"
    using assms initializeFirebaseAdmin_file_first [of s P]
      initializeFirebaseAdmin_env_no_file [of s P]
    by auto
  have first: "\<not> envVarUsable P \<longrightarrow> (\<exists>rest. io (initializeFirebaseAdmin P s) = Fs_existsSync # rest)"
    using assms initializeFirebaseAdmin_file_first [of s P] by simp
  have stops: "envVarUsable P \<and> \<not> envYieldsCredentials P \<longrightarrow>
          (\<exists>m. initializeFirebaseAdmin P s =
             returned (s\<lparr>isInitialized := True,
                          initializationError := Some (new_Error (envParseFailure m))\<rparr>) [])"
  proof
    assume a: "envVarUsable P \<and> \<not> envYieldsCredentials P"
    then obtain blob where blob: "env_FIREBASE_SERVICE_ACCOUNT_KEY P = Some blob"
      by (auto simp: envVarUsable_def split: option.splits)
    with a have "\<not> accepted P blob"
      by (simp add: envYieldsCredentials_iff)
    with assms a blob show "\<exists>m. initializeFirebaseAdmin P s =
             returned (s\<lparr>isInitialized := True,
                          initializationError := Some (new_Error (envParseFailure m))\<rparr>) []"
      by (intro initializeFirebaseAdmin_env_rejected) simp_all
  qed
  have goes: "\<forall>envVarValue. envYieldsCredentials P
            \<and> env_FIREBASE_SERVICE_ACCOUNT_KEY P = Some envVarValue \<longrightarrow>
          initializeFirebaseAdmin P s =
            initializeSdk P (s\<lparr>isInitialized := True\<rparr>) envVarValue
              (Some ''environment variable'') []"
    using assms by (auto simp: envYieldsCredentials_iff intro: initializeFirebaseAdmin_env_accepted)
  have sdk: "\<exists>serviceAccount. JSON_parse P blob = Inr serviceAccount
             \<and> (admin_apps P \<noteq> [] \<longrightarrow>
                  initializeFirebaseAdmin P s =
                    (case admin_auth P of
                       Inr instance \<Rightarrow>
                         returned (s\<lparr>isInitialized := True, adminAuthInstance := Some instance,
                                      initializedVia := Some source,
                                      initializationError := None\<rparr>)
                           (calls @ [Admin_apps, Admin_auth])
                     | Inl error \<Rightarrow>
                         threw (s\<lparr>isInitialized := True\<rparr>) error
                           (calls @ [Admin_apps, Admin_auth])))
             \<and> (\<forall>instance. admin_apps P = [] \<and> admin_initializeApp P serviceAccount = None
                    \<and> admin_auth_after_init P = Inr instance \<longrightarrow>
                  initializeFirebaseAdmin P s =
                    returned (s\<lparr>isInitialized := True, adminAuthInstance := Some instance,
                                 initializedVia := Some source, initializationError := None\<rparr>)
                      (calls @ [Admin_apps, Admin_initializeApp, Admin_auth]))
             \<and> (\<forall>error. admin_apps P = []
                    \<and> (admin_initializeApp P serviceAccount = Some error
                        \<or> admin_initializeApp P serviceAccount = None
                          \<and> admin_auth_after_init P = Inl error) \<longrightarrow>
                  (if error_code error = Some ''app/duplicate-app'' then
                     (case admin_apps_after_failure P of
                        Some (Inr instance) # rest \<Rightarrow>
                          thrown (initializeFirebaseAdmin P s) = None
                          \<and> final (initializeFirebaseAdmin P s) =
                              s\<lparr>isInitialized := True, adminAuthInstance := Some instance,
                                initializedVia := Some source, initializationError := None\<rparr>
                      | Some (Inl authError) # rest \<Rightarrow>
                          thrown (initializeFirebaseAdmin P s) = Some authError
                          \<and> final (initializeFirebaseAdmin P s) = s\<lparr>isInitialized := True\<rparr>
                      | _ \<Rightarrow>
                          thrown (initializeFirebaseAdmin P s) = None
                          \<and> final (initializeFirebaseAdmin P s) =
                              s\<lparr>isInitialized := True,
                                initializationError :=
                                  Some (new_Error (duplicateAppFailure (error_message error))),
                                adminAuthInstance := None\<rparr>)
                   else
                     thrown (initializeFirebaseAdmin P s) = None
                     \<and> final (initializeFirebaseAdmin P s) =
                         s\<lparr>isInitialized := True,
                           initializationError :=
                             Some (new_Error
                               (initializeAppFailure (Some source) (error_message error))),
                           adminAuthInstance := None\<rparr>))"
    if loaded: "envYieldsCredentials P \<and> env_FIREBASE_SERVICE_ACCOUNT_KEY P = Some blob
             \<and> source = ''environment variable'' \<and> calls = []
           \<or> \<not> envVarUsable P \<and> fs_existsSync P \<and> fs_readFileSync P = Inr blob
             \<and> trim blob \<noteq> [] \<and> accepted P blob
             \<and> source = ''local file ('' @ serviceAccountFilename @ '')''
             \<and> calls = [Fs_existsSync, Fs_readFileSync]"
    for blob source calls
  proof -
    from loaded have run: "initializeFirebaseAdmin P s = initializeSdk P ?s blob (Some source) calls"
      using assms goes initializeFirebaseAdmin_file_accepted [of s P blob] by auto
    from loaded have "accepted P blob"
      by (auto simp: envYieldsCredentials_iff)
    then obtain serviceAccount where parsed: "JSON_parse P blob = Inr serviceAccount"
      using accepted_parses by blast
    from loaded have source: "source \<noteq> []"
      by auto
    have existing: "admin_apps P \<noteq> [] \<longrightarrow>
        initializeFirebaseAdmin P s =
          (case admin_auth P of
             Inr instance \<Rightarrow>
               returned (s\<lparr>isInitialized := True, adminAuthInstance := Some instance,
                            initializedVia := Some source, initializationError := None\<rparr>)
                 (calls @ [Admin_apps, Admin_auth])
           | Inl error \<Rightarrow>
               threw (s\<lparr>isInitialized := True\<rparr>) error (calls @ [Admin_apps, Admin_auth]))"
      using initializeSdk_existing_app [of P ?s blob "Some source" calls] source
      by (simp add: run split: sum.splits)
    have fresh: "\<forall>instance. admin_apps P = [] \<and> admin_initializeApp P serviceAccount = None
          \<and> admin_auth_after_init P = Inr instance \<longrightarrow>
        initializeFirebaseAdmin P s =
          returned (s\<lparr>isInitialized := True, adminAuthInstance := Some instance,
                       initializedVia := Some source, initializationError := None\<rparr>)
            (calls @ [Admin_apps, Admin_initializeApp, Admin_auth])"
      using initializeSdk_new_app [of P blob serviceAccount _ ?s "Some source" calls] parsed
      by (simp add: run)
    have fails: "\<forall>error. admin_apps P = []
          \<and> (admin_initializeApp P serviceAccount = Some error
              \<or> admin_initializeApp P serviceAccount = None
                \<and> admin_auth_after_init P = Inl error) \<longrightarrow>
        (if error_code error = Some ''app/duplicate-app'' then
           (case admin_apps_after_failure P of
              Some (Inr instance) # rest \<Rightarrow>
                thrown (initializeFirebaseAdmin P s) = None
                \<and> final (initializeFirebaseAdmin P s) =
                    s\<lparr>isInitialized := True, adminAuthInstance := Some instance,
                      initializedVia := Some source, initializationError := None\<rparr>
            | Some (Inl authError) # rest \<Rightarrow>
                thrown (initializeFirebaseAdmin P s) = Some authError
                \<and> final (initializeFirebaseAdmin P s) = s\<lparr>isInitialized := True\<rparr>
            | _ \<Rightarrow>
                thrown (initializeFirebaseAdmin P s) = None
                \<and> final (initializeFirebaseAdmin P s) =
                    s\<lparr>isInitialized := True,
                      initializationError :=
                        Some (new_Error (duplicateAppFailure (error_message error))),
                      adminAuthInstance := None\<rparr>)
         else
           thrown (initializeFirebaseAdmin P s) = None
           \<and> final (initializeFirebaseAdmin P s) =
               s\<lparr>isInitialized := True,
                 initializationError :=
                   Some (new_Error (initializeAppFailure (Some source) (error_message error))),
                 adminAuthInstance := None\<rparr>)"
    proof (intro allI impI)
      fix error
      assume a: "admin_apps P = []
          \<and> (admin_initializeApp P serviceAccount = Some error
              \<or> admin_initializeApp P serviceAccount = None
                \<and> admin_auth_after_init P = Inl error)"
      then obtain tried where "initializeSdk P ?s blob (Some source) calls =
         (if error_code error = Some ''app/duplicate-app'' then
            (case admin_apps_after_failure P of
               Some (Inr instance) # rest \<Rightarrow>
                 returned (?s\<lparr>adminAuthInstance := Some instance,
                              initializedVia := Some (or_else (Some source) ''existing app detection''),
                              initializationError := None\<rparr>)
                   (calls @ [Admin_apps] @ tried @ [Admin_apps, App_auth])
             | Some (Inl authError) # rest \<Rightarrow>
                 threw ?s authError (calls @ [Admin_apps] @ tried @ [Admin_apps, App_auth])
             | _ \<Rightarrow>
                 returned (?s\<lparr>initializationError :=
                                Some (new_Error (duplicateAppFailure (error_message error))),
                              adminAuthInstance := None\<rparr>)
                   (calls @ [Admin_apps] @ tried @ [Admin_apps]))
          else
            returned (?s\<lparr>initializationError :=
                           Some (new_Error (initializeAppFailure (Some source) (error_message error))),
                         adminAuthInstance := None\<rparr>)
              (calls @ [Admin_apps] @ tried))"
        using initializeSdk_try_fails [of P blob serviceAccount error ?s "Some source" calls] parsed
        by blast
      then show "if error_code error = Some ''app/duplicate-app'' then
           (case admin_apps_after_failure P of
              Some (Inr instance) # rest \<Rightarrow>
                thrown (initializeFirebaseAdmin P s) = None
                \<and> final (initializeFirebaseAdmin P s) =
                    s\<lparr>isInitialized := True, adminAuthInstance := Some instance,
                      initializedVia := Some source, initializationError := None\<rparr>
            | Some (Inl authError) # rest \<Rightarrow>
                thrown (initializeFirebaseAdmin P s) = Some authError
                \<and> final (initializeFirebaseAdmin P s) = s\<lparr>isInitialized := True\<rparr>
            | _ \<Rightarrow>
                thrown (initializeFirebaseAdmin P s) = None
                \<and> final (initializeFirebaseAdmin P s) =
                    s\<lparr>isInitialized := True,
                      initializationError :=
                        Some (new_Error (duplicateAppFailure (error_message error))),
                      adminAuthInstance := None\<rparr>)
         else
           thrown (initializeFirebaseAdmin P s) = None
           \<and> final (initializeFirebaseAdmin P s) =
               s\<lparr>isInitialized := True,
                 initializationError :=
                   Some (new_Error (initializeAppFailure (Some source) (error_message error))),
                 adminAuthInstance := None\<rparr>"
        using source
        by (simp add: run returned_def threw_def split: list.splits option.splits sum.splits)
    qed
    from parsed existing fresh fails show ?thesis by blast
  qed
  from tried first stops goes sdk show ?thesis by blast
qed

theorem credential_sequence_witness:
  "\<not> isInitialized initial_state
   \<and> \<not> envVarUsable exampleProcess
   \<and> Fs_existsSync \<in> set (io (initializeFirebaseAdmin exampleProcess initial_state))
   \<and> initializeFirebaseAdmin exampleProcess initial_state =
       returned \<lparr>adminAuthInstance = Some (Auth ''[DEFAULT]''), initializationError = None,
                 isInitialized = True,
                 initializedVia = Some (''local file ('' @ serviceAccountFilename @ '')'')\<rparr>
         [Fs_existsSync, Fs_readFileSync, Admin_apps, Admin_initializeApp, Admin_auth]
   \<and> envVarUsable (exampleProcess\<lparr>env_FIREBASE_SERVICE_ACCOUNT_KEY := Some ''not json''\<rparr>)
   \<and> Fs_existsSync \<notin> set (io (initializeFirebaseAdmin
         (exampleProcess\<lparr>env_FIREBASE_SERVICE_ACCOUNT_KEY := Some ''not json''\<rparr>) initial_state))
   \<and> envYieldsCredentials (exampleProcess\<lparr>env_FIREBASE_SERVICE_ACCOUNT_KEY := Some exampleKey\<rparr>)
   \<and> initializeFirebaseAdmin
         (exampleProcess\<lparr>env_FIREBASE_SERVICE_ACCOUNT_KEY := Some exampleKey\<rparr>) initial_state =
       returned \<lparr>adminAuthInstance = Some (Auth ''[DEFAULT]''), initializationError = None,
                 isInitialized = True, initializedVia = Some ''environment variable''\<rparr>
         [Admin_apps, Admin_initializeApp, Admin_auth]
   \<and> initializeFirebaseAdmin
         (exampleProcess\<lparr>env_FIREBASE_SERVICE_ACCOUNT_KEY := Some exampleKey,
            admin_apps := [Some (Inr (Auth ''old''))], admin_auth := Inr (Auth ''old'')\<rparr>)
         initial_state =
       returned \<lparr>adminAuthInstance = Some (Auth ''old''), initializationError = None,
                 isInitialized = True, initializedVia = Some ''environment variable''\<rparr>
         [Admin_apps, Admin_auth]
   \<and> final (initializeFirebaseAdmin
         (exampleProcess\<lparr>env_FIREBASE_SERVICE_ACCOUNT_KEY := Some exampleKey,
            admin_initializeApp := (\<lambda>serviceAccount.
              Some \<lparr>error_code = Some ''app/invalid-credential'',
                    error_message = ''Failed to parse private key''\<rparr>)\<rparr>)
         initial_state) =
       \<lparr>adminAuthInstance = None,
        initializationError = Some (new_Error (initializeAppFailure (Some ''environment variable'')
          ''Failed to parse private key'')),
        isInitialized = True, initializedVia = None\<rparr>"
proof -
  let ?env = "exampleProcess\<lparr>env_FIREBASE_SERVICE_ACCOUNT_KEY := Some exampleKey\<rparr>"
  let ?hot = "exampleProcess\<lparr>env_FIREBASE_SERVICE_ACCOUNT_KEY := Some exampleKey,
      admin_apps := [Some (Inr (Auth ''old''))], admin_auth := Inr (Auth ''old'')\<rparr>"
  let ?refused = "exampleProcess\<lparr>env_FIREBASE_SERVICE_ACCOUNT_KEY := Some exampleKey,
      admin_initializeApp := (\<lambda>serviceAccount.
        Some \<lparr>error_code = Some ''app/invalid-credential'',
              error_message = ''Failed to parse private key''\<rparr>)\<rparr>"
  let ?bad = "exampleProcess\<lparr>env_FIREBASE_SERVICE_ACCOUNT_KEY := Some ''not json''\<rparr>"
  let ?account = "JObject [(''project_id'', JString ''reportzen''), (''private_key'', JString ''k''),
      (''client_email'', JString ''a@b.c'')]"
  have init: "\<not> isInitialized initial_state"
    by (simp add: initial_state_def)
  have unset: "\<not> envVarUsable exampleProcess"
    by (simp add: envVarUsable_def exampleProcess_def)
  have bad: "envVarUsable ?bad"
    by (simp add: envVarUsable_def trim_def isWhiteSpace_def)
  have yields: "envYieldsCredentials ?env" "envYieldsCredentials ?hot" "envYieldsCredentials ?refused"
    by (simp_all add: envYieldsCredentials_def admin_defs example_defs)
  have fromFile: "\<not> envVarUsable exampleProcess \<and> fs_existsSync exampleProcess
      \<and> fs_readFileSync exampleProcess = Inr exampleKey \<and> trim exampleKey \<noteq> []
      \<and> accepted exampleProcess exampleKey"
    by (simp add: envVarUsable_def accepted_def parseAndValidate_def credentialsInvalid_def
        trim_def isWhiteSpace_def example_defs)
  have parse: "JSON_parse exampleProcess exampleKey = Inr ?account"
    by (simp add: example_defs)
  note atFile = credential_sequence [OF init, of exampleProcess]
  note atBad = credential_sequence [OF init, of ?bad]
  note atEnv = credential_sequence [OF init, of ?env]
  note atHot = credential_sequence [OF init, of ?hot]
  note atRefused = credential_sequence [OF init, of ?refused]
  have tried: "Fs_existsSync \<in> set (io (initializeFirebaseAdmin exampleProcess initial_state))"
    using atFile unset by simp
  have untried: "Fs_existsSync \<notin> set (io (initializeFirebaseAdmin ?bad initial_state))"
    using atBad bad by simp
  have fileRun: "initializeFirebaseAdmin exampleProcess initial_state =
       returned \<lparr>adminAuthInstance = Some (Auth ''[DEFAULT]''), initializationError = None,
                 isInitialized = True,
                 initializedVia = Some (''local file ('' @ serviceAccountFilename @ '')'')\<rparr>
         [Fs_existsSync, Fs_readFileSync, Admin_apps, Admin_initializeApp, Admin_auth]"
    using atFile [THEN conjunct2, THEN conjunct2, THEN conjunct2, THEN conjunct2, rule_format,
        of exampleKey "''local file ('' @ serviceAccountFilename @ '')''"
          "[Fs_existsSync, Fs_readFileSync]"]
      fromFile parse
    by (simp add: exampleProcess_def initial_state_def)
  have envRun: "initializeFirebaseAdmin ?env initial_state =
       returned \<lparr>adminAuthInstance = Some (Auth ''[DEFAULT]''), initializationError = None,
                 isInitialized = True, initializedVia = Some ''environment variable''\<rparr>
         [Admin_apps, Admin_initializeApp, Admin_auth]"
    using atEnv [THEN conjunct2, THEN conjunct2, THEN conjunct2, THEN conjunct2, rule_format,
        of exampleKey "''environment variable''" "[]"]
      yields(1) parse
    by (simp add: exampleProcess_def initial_state_def)
  have hotRun: "initializeFirebaseAdmin ?hot initial_state =
       returned \<lparr>adminAuthInstance = Some (Auth ''old''), initializationError = None,
                 isInitialized = True, initializedVia = Some ''environment variable''\<rparr>
         [Admin_apps, Admin_auth]"
    using atHot [THEN conjunct2, THEN conjunct2, THEN conjunct2, THEN conjunct2, rule_format,
        of exampleKey "''environment variable''" "[]"]
      yields(2) parse
    by (simp add: exampleProcess_def initial_state_def)
  have refusedRun: "final (initializeFirebaseAdmin ?refused initial_state) =
       \<lparr>adminAuthInstance = None,
        initializationError = Some (new_Error (initializeAppFailure (Some ''environment variable'')
          ''Failed to parse private key'')),
        isInitialized = True, initializedVia = None\<rparr>"
    using atRefused [THEN conjunct2, THEN conjunct2, THEN conjunct2, THEN conjunct2, rule_format,
        of exampleKey "''environment variable''" "[]"]
      yields(3) parse
    by (simp add: exampleProcess_def initial_state_def)
  from init unset tried fileRun bad untried yields(1) envRun hotRun refusedRun
  show ?thesis by (intro conjI)
qed

subsection \<open>The shape check\<close>

text \<open>
  Claim C4, as the specification words it: a blob is accepted exactly when it parses to a
  non-null object that contains the three fields, and every blob that fails this records a
  failure and builds no handle. It fails twice. An object that contains the three fields
  with an empty \<open>project_id\<close> is rejected. And the blob \<open>{}\<close> in the environment variable,
  which lacks all three fields, records no failure: it is skipped, and the handle is built
  from the local file.
\<close>

theorem credential_blob_counterexample:
  "spec_containsRequiredFields
      (JObject [(''project_id'', JString []), (''private_key'', JString ''k''),
                (''client_email'', JString ''a@b.c'')])
   \<and> JSON_parse exampleProcess exampleKeyNoProject =
       Inr (JObject [(''project_id'', JString []), (''private_key'', JString ''k''),
                     (''client_email'', JString ''a@b.c'')])
   \<and> \<not> accepted exampleProcess exampleKeyNoProject
   \<and> initializationError
        (moduleLoad (exampleProcess\<lparr>env_FIREBASE_SERVICE_ACCOUNT_KEY := Some exampleKeyNoProject\<rparr>))
       \<noteq> None
   \<and> \<not> accepted exampleProcess ''{}''
   \<and> adminAuthInstance (moduleLoad (exampleProcess\<lparr>env_FIREBASE_SERVICE_ACCOUNT_KEY := Some ''{}''\<rparr>))
       = Some (Auth ''[DEFAULT]'')
   \<and> initializationError (moduleLoad (exampleProcess\<lparr>env_FIREBASE_SERVICE_ACCOUNT_KEY := Some ''{}''\<rparr>))
       = None"
  by (simp add: spec_containsRequiredFields_def accepted_def admin_defs example_defs)

text \<open>
  Claim C4, amended. A blob is accepted exactly when it parses as JSON to an object whose
  fields \<open>project_id\<close>, \<open>private_key\<close> and \<open>client_email\<close> are all truthy (present and
  neither empty, zero, false nor null). On a first call, a value of the environment variable
  that is not blank and not \<open>{}\<close>, and the content of an existing local file that is not
  blank (the variable having been skipped), lead to the SDK being initialised from that
  blob when it is accepted, and otherwise to a recorded failure with nothing else changed
  and no call to the SDK. A blank file is treated as no file: the failure recorded is that
  no credentials were found.
\<close>

theorem credential_blob_accepted:
  "(accepted P blob \<longleftrightarrow>
      (\<exists>kvs. JSON_parse P blob = Inr (JObject kvs)
         \<and> truthy (map_of kvs ''project_id'') \<and> truthy (map_of kvs ''private_key'')
         \<and> truthy (map_of kvs ''client_email'')))
   \<and> (\<not> isInitialized s \<and> envVarUsable P \<and> env_FIREBASE_SERVICE_ACCOUNT_KEY P = Some blob \<longrightarrow>
        (if accepted P blob then
           initializeFirebaseAdmin P s =
             initializeSdk P (s\<lparr>isInitialized := True\<rparr>) blob (Some ''environment variable'') []
         else
           (\<exists>m. initializeFirebaseAdmin P s =
              returned (s\<lparr>isInitialized := True, initializationError := Some (new_Error m)\<rparr>)
                [])))
   \<and> (\<not> isInitialized s \<and> \<not> envVarUsable P \<and> fs_existsSync P \<and> fs_readFileSync P = Inr blob
        \<and> trim blob \<noteq> [] \<longrightarrow>
        (if accepted P blob then
           initializeFirebaseAdmin P s =
             initializeSdk P (s\<lparr>isInitialized := True\<rparr>) blob
               (Some (''local file ('' @ serviceAccountFilename @ '')''))
               [Fs_existsSync, Fs_readFileSync]
         else
           (\<exists>m. initializeFirebaseAdmin P s =
              returned (s\<lparr>isInitialized := True, initializationError := Some (new_Error m)\<rparr>)
                [Fs_existsSync, Fs_readFileSync])))
   \<and> (\<not> isInitialized s \<and> \<not> envVarUsable P \<and> fs_existsSync P \<and> fs_readFileSync P = Inr blob
        \<and> trim blob = [] \<longrightarrow>
        initializeFirebaseAdmin P s =
          returned (s\<lparr>isInitialized := True,
                       initializationError := Some (new_Error (noCredentialsFailure P))\<rparr>)
            [Fs_existsSync, Fs_readFileSync])"
proof -
  have shape: "accepted P blob \<longleftrightarrow>
      (\<exists>kvs. JSON_parse P blob = Inr (JObject kvs)
         \<and> truthy (map_of kvs ''project_id'') \<and> truthy (map_of kvs ''private_key'')
         \<and> truthy (map_of kvs ''client_email''))"
    by (rule accepted_iff)
  have fromEnv: "\<not> isInitialized s \<and> envVarUsable P \<and> env_FIREBASE_SERVICE_ACCOUNT_KEY P = Some blob \<longrightarrow>
        (if accepted P blob then
           initializeFirebaseAdmin P s =
             initializeSdk P (s\<lparr>isInitialized := True\<rparr>) blob (Some ''environment variable'') []
         else
           (\<exists>m. initializeFirebaseAdmin P s =
              returned (s\<lparr>isInitialized := True, initializationError := Some (new_Error m)\<rparr>)
                []))"
    using initializeFirebaseAdmin_env_accepted [of s P blob]
      initializeFirebaseAdmin_env_rejected [of s P blob]
    by auto
  have fromFile: "\<not> isInitialized s \<and> \<not> envVarUsable P \<and> fs_existsSync P \<and> fs_readFileSync P = Inr blob
        \<and> trim blob \<noteq> [] \<longrightarrow>
        (if accepted P blob then
           initializeFirebaseAdmin P s =
             initializeSdk P (s\<lparr>isInitialized := True\<rparr>) blob
               (Some (''local file ('' @ serviceAccountFilename @ '')''))
               [Fs_existsSync, Fs_readFileSync]
         else
           (\<exists>m. initializeFirebaseAdmin P s =
              returned (s\<lparr>isInitialized := True, initializationError := Some (new_Error m)\<rparr>)
                [Fs_existsSync, Fs_readFileSync]))"
    using initializeFirebaseAdmin_file_accepted [of s P blob]
      initializeFirebaseAdmin_file_rejected [of s P blob]
    by auto
  have blank: "\<not> isInitialized s \<and> \<not> envVarUsable P \<and> fs_existsSync P \<and> fs_readFileSync P = Inr blob
        \<and> trim blob = [] \<longrightarrow>
        initializeFirebaseAdmin P s =
          returned (s\<lparr>isInitialized := True,
                       initializationError := Some (new_Error (noCredentialsFailure P))\<rparr>)
            [Fs_existsSync, Fs_readFileSync]"
    using initializeFirebaseAdmin_file_blank [of s P blob] by simp
  from shape fromEnv fromFile blank show ?thesis by (intro conjI)
qed

theorem credential_blob_accepted_witness:
  "accepted exampleProcess exampleKey
   \<and> initializeFirebaseAdmin exampleProcess initial_state =
       initializeSdk exampleProcess (initial_state\<lparr>isInitialized := True\<rparr>) exampleKey
         (Some (''local file ('' @ serviceAccountFilename @ '')''))
         [Fs_existsSync, Fs_readFileSync]
   \<and> \<not> accepted (exampleProcess\<lparr>env_FIREBASE_SERVICE_ACCOUNT_KEY := Some exampleKeyNoProject\<rparr>)
         exampleKeyNoProject
   \<and> (\<exists>m. initializeFirebaseAdmin
              (exampleProcess\<lparr>env_FIREBASE_SERVICE_ACCOUNT_KEY := Some exampleKeyNoProject\<rparr>)
              initial_state =
            returned (initial_state\<lparr>isInitialized := True,
                                     initializationError := Some (new_Error m)\<rparr>) [])"
proof -
  have init: "\<not> isInitialized initial_state"
    by (simp add: initial_state_def)
  have fromFile: "\<not> envVarUsable exampleProcess \<and> fs_existsSync exampleProcess
      \<and> fs_readFileSync exampleProcess = Inr exampleKey \<and> trim exampleKey \<noteq> []"
    by (simp add: envVarUsable_def trim_def isWhiteSpace_def example_defs)
  have good: "accepted exampleProcess exampleKey"
    by (simp add: accepted_def parseAndValidate_def credentialsInvalid_def example_defs)
  have fromEnv: "envVarUsable (exampleProcess\<lparr>env_FIREBASE_SERVICE_ACCOUNT_KEY := Some exampleKeyNoProject\<rparr>)"
    by (simp add: envVarUsable_def trim_def isWhiteSpace_def example_defs)
  have bad: "\<not> accepted (exampleProcess\<lparr>env_FIREBASE_SERVICE_ACCOUNT_KEY := Some exampleKeyNoProject\<rparr>)
      exampleKeyNoProject"
    by (simp add: accepted_def parseAndValidate_def credentialsInvalid_def example_defs)
  show ?thesis
    using init fromFile good fromEnv bad
      credential_blob_accepted [of exampleProcess exampleKey initial_state]
      credential_blob_accepted
        [of "exampleProcess\<lparr>env_FIREBASE_SERVICE_ACCOUNT_KEY := Some exampleKeyNoProject\<rparr>"
          exampleKeyNoProject initial_state]
    by simp
qed

section \<open>Properties of \<open>listUsersAction\<close>\<close>

subsection \<open>Strings and sorting\<close>

lemma starts_with_append: "starts_with (p @ rest) p"
  by (induction p) simp_all

lemma str_includes_starts: "starts_with s p \<Longrightarrow> str_includes s p"
  by (cases s) (auto elim: starts_with.elims)

lemma str_includes_append: "str_includes (before @ m @ rest) m"
proof (induction before)
  case Nil
  show ?case by (simp add: str_includes_starts starts_with_append)
next
  case (Cons c before)
  then show ?case by simp
qed

lemma accessFailed_includes:
  "str_includes (accessFailedMessage m) ''Firebase Admin SDK access failed''"
proof -
  have "accessFailedMessage m = ''Firebase Admin SDK access failed'' @ ('': '' @ m
     @ ''. Check server startup logs for details. Common causes are missing, empty, or invalid ''
     @ ''service account credentials (env var '' @ [CHR 0x27] @ ''FIREBASE_SERVICE_ACCOUNT_KEY''
     @ [CHR 0x27] @ '' or local file '' @ [CHR 0x27] @ serviceAccountFilename @ [CHR 0x27]
     @ ''). Please verify your setup according to the README.md.'')"
    by (simp add: accessFailedMessage_def)
  then show ?thesis
    by (simp only: str_includes_starts starts_with_append)
qed

lemma listUsersCatch_message:
  "str_includes (message (listUsersCatch error)) (error_message error)"
proof -
  have "criticalMessage m =
      (''Erreur critique: Impossible d'' @ [CHR 0x27] @ ''initialiser Firebase Admin SDK. V''
       @ [CHR 0xE9] @ ''rifiez les logs du serveur. ('') @ m @ '')''" for m
    by (simp add: criticalMessage_def)
  then have "str_includes (criticalMessage m) m" for m
    by (simp only: str_includes_append)
  moreover have "str_includes (listFailureMessage m) m" for m
    unfolding listFailureMessage_def
    using str_includes_append
      [of "''Erreur lors de la r'' @ [CHR 0xE9] @ ''cup'' @ [CHR 0xE9] @ ''ration des utilisateurs: ''" m "[]"]
    by simp
  ultimately show ?thesis
    by (simp add: listUsersCatch_def Let_def)
qed

lemma set_insertSorted: "set (insertSorted cmp x ys) = insert x (set ys)"
  by (induction ys) auto

lemma mset_insertSorted: "mset (insertSorted cmp x ys) = add_mset x (mset ys)"
  by (induction ys) auto

lemma mset_stableSort: "mset (stableSort cmp xs) = mset xs"
  by (induction xs) (simp_all add: stableSort_def mset_insertSorted)

lemma set_stableSort: "set (stableSort cmp xs) = set xs"
  using mset_stableSort [of cmp xs] by (metis set_mset_mset)

lemma mset_insertAt: "mset (insertAt p x ys) = add_mset x (mset ys)"
proof -
  have "mset (take p ys) + mset (drop p ys) = mset ys"
    by (metis append_take_drop_id mset_append)
  then show ?thesis by (simp add: insertAt_def)
qed

lemma mset_arrange: "mset (arrange ps xs) = mset xs"
  by (induction ps xs rule: arrange.induct) (simp_all add: mset_insertAt)

text \<open>Every rearrangement of the elements is the answer to some list of positions.\<close>

lemma arrange_any_order: "mset ys = mset xs \<Longrightarrow> \<exists>ps. arrange ps xs = ys"
proof (induction xs arbitrary: ys)
  case Nil
  then show ?case by simp
next
  case (Cons x xs)
  then have "x \<in> set ys"
    by (metis list.set_intros(1) set_mset_mset)
  then obtain before rest where ys: "ys = before @ x # rest"
    by (auto simp: in_set_conv_decomp)
  with Cons.prems have "mset (before @ rest) = mset xs" by simp
  with Cons.IH obtain ps where "arrange ps xs = before @ rest" by blast
  then have "arrange (length before # ps) (x # xs) = ys"
    by (simp add: insertAt_def ys)
  then show ?case by blast
qed

lemma mset_array_sort: "mset (array_sort order cmp xs) = mset xs"
  by (simp add: array_sort_def mset_stableSort mset_arrange)

lemma length_array_sort: "length (array_sort order cmp xs) = length xs"
  using mset_array_sort [of order cmp xs] by (metis size_mset)

lemma set_array_sort: "set (array_sort order cmp xs) = set xs"
  using mset_array_sort [of order cmp xs] by (metis set_mset_mset)

lemma sorted_insertSorted:
  fixes key :: "'a \<Rightarrow> int"
  assumes "\<And>y. y \<in> set ys \<Longrightarrow> (cmp x y \<le> 0) = (key y \<le> key x)"
    and "sorted_wrt (\<lambda>a b. key b \<le> key a) ys"
  shows "sorted_wrt (\<lambda>a b. key b \<le> key a) (insertSorted cmp x ys)"
  using assms
proof (induction ys)
  case Nil
  show ?case by simp
next
  case (Cons y ys)
  show ?case
  proof (cases "cmp x y \<le> 0")
    case True
    with Cons.prems have "key y \<le> key x" by simp
    moreover from Cons.prems(2) have "\<forall>z\<in>set ys. key z \<le> key y" by simp
    ultimately have "\<forall>z\<in>set (y # ys). key z \<le> key x" by auto
    with True Cons.prems(2) show ?thesis by simp
  next
    case False
    with Cons.prems(1) have "key x \<le> key y" by force
    moreover have "sorted_wrt (\<lambda>a b. key b \<le> key a) (insertSorted cmp x ys)"
      using Cons by simp
    ultimately show ?thesis
      using False Cons.prems(2) by (simp add: set_insertSorted)
  qed
qed

lemma sorted_stableSort:
  fixes key :: "'a \<Rightarrow> int"
  assumes "\<And>x y. x \<in> set xs \<Longrightarrow> y \<in> set xs \<Longrightarrow> (cmp x y \<le> 0) = (key y \<le> key x)"
  shows "sorted_wrt (\<lambda>a b. key b \<le> key a) (stableSort cmp xs)"
  using assms
proof (induction xs)
  case Nil
  show ?case by (simp add: stableSort_def)
next
  case (Cons x xs)
  have "sorted_wrt (\<lambda>a b. key b \<le> key a) (stableSort cmp xs)"
    using Cons by simp
  moreover have "\<And>y. y \<in> set (stableSort cmp xs) \<Longrightarrow> (cmp x y \<le> 0) = (key y \<le> key x)"
    using Cons.prems by (simp add: set_stableSort)
  ultimately have "sorted_wrt (\<lambda>a b. key b \<le> key a) (insertSorted cmp x (stableSort cmp xs))"
    by (intro sorted_insertSorted)
  then show ?case by (simp add: stableSort_def)
qed

lemma compareCreationTime_createdAt:
  assumes "Date_getTime P (user_creationTime a) \<noteq> None" "Date_getTime P (user_creationTime b) \<noteq> None"
  shows "(compareCreationTime P a b \<le> 0) = (createdAt P b \<le> createdAt P a)"
  using assms by (auto simp: compareCreationTime_def createdAt_def)

lemma compareCreationTime_difference:
  assumes "Date_getTime P (user_creationTime a) \<noteq> None" "Date_getTime P (user_creationTime b) \<noteq> None"
  shows "compareCreationTime P a b = createdAt P b - createdAt P a"
  using assms by (auto simp: compareCreationTime_def createdAt_def)

lemma compareCreationTime_consistent:
  assumes "creationTimesParse P xs"
  shows "consistentComparator (compareCreationTime P) xs"
proof -
  have "compareCreationTime P a b = createdAt P b - createdAt P a"
    if "a \<in> set xs" "b \<in> set xs" for a b
    using that assms
    by (intro compareCreationTime_difference) (simp_all add: creationTimesParse_def list_all_iff)
  then show ?thesis
    by (simp add: consistentComparator_def)
qed

lemma sorted_array_sort:
  assumes "creationTimesParse P xs"
  shows "sorted_wrt (\<lambda>a b. createdAt P b \<le> createdAt P a)
           (array_sort order (compareCreationTime P) xs)"
proof -
  have "sorted_wrt (\<lambda>a b. createdAt P b \<le> createdAt P a) (stableSort (compareCreationTime P) xs)"
    using assms
    by (intro sorted_stableSort compareCreationTime_createdAt)
      (simp_all add: creationTimesParse_def list_all_iff)
  with assms show ?thesis
    by (simp add: array_sort_def compareCreationTime_consistent)
qed

subsection \<open>Runs of the action\<close>

text \<open>The successful run of the action, spelled out.\<close>

lemma listUsersAction_users:
  assumes "listUsersAction P s = Inr result" "users result = Some listed"
  shows "\<exists>adminAuth userRecords.
      getAdminAuth s = Inr adminAuth \<and> auth_listUsers P adminAuth 1000 = Inr userRecords
      \<and> listed = array_sort (Array_sort_order P) (compareCreationTime P)
        (map (toDisplayUser P) userRecords)
      \<and> success result"
  using assms
  by (auto simp: listUsersAction_def listUsersTry_def listUsersCatch_def Let_def
      split: sum.splits)

lemmas listUsers_defs = listUsersAction_def listUsersTry_def listUsersCatch_def getAdminAuth_def
  toDisplayUser_def isAdminValue_def allowedSectionsValue_def customClaim_def
  compareCreationTime_def array_sort_def stableSort_def consistentComparator_def fetchedMessage_def

lemma exampleProcess_listUsers:
  "listUsersAction exampleProcess (moduleLoad exampleProcess) =
     Inr \<lparr>success = True, message = ''Successfully fetched 3 users.'',
          users = Some
            [\<lparr>user_uid = ''u2'', user_email = None,
              user_creationTime = ''Wed, 01 Jan 2020 00:00:00 GMT'',
              user_lastSignInTime = ''Wed, 01 Jan 2020 00:00:00 GMT'',
              user_disabled = False, isAdmin = Some (JBool True), allowedSections = JArray []\<rparr>,
             \<lparr>user_uid = ''u1'', user_email = Some ''old@example.com'',
              user_creationTime = ''Tue, 01 Jan 2019 00:00:00 GMT'',
              user_lastSignInTime = ''Wed, 01 Jan 2020 00:00:00 GMT'',
              user_disabled = False, isAdmin = None, allowedSections = JArray []\<rparr>,
             \<lparr>user_uid = ''u3'', user_email = Some ''new@example.com'',
              user_creationTime = ''Tue, 01 Jan 2019 00:00:00 GMT'',
              user_lastSignInTime = ''Tue, 01 Jan 2019 00:00:00 GMT'',
              user_disabled = True, isAdmin = None,
              allowedSections = JArray [JString ''reports'']\<rparr>]\<rparr>"
  unfolding exampleProcess_moduleLoad by (simp add: listUsers_defs example_defs)

lemma exampleProcess_noFile_listUsers:
  "listUsersAction (exampleProcess\<lparr>fs_existsSync := False\<rparr>)
      (moduleLoad (exampleProcess\<lparr>fs_existsSync := False\<rparr>)) =
     Inr \<lparr>success = False,
          message = criticalMessage (accessFailedMessage
            (noCredentialsFailure (exampleProcess\<lparr>fs_existsSync := False\<rparr>))),
          users = None\<rparr>"
  unfolding exampleProcess_noFile
  by (simp add: listUsersAction_def listUsersTry_def listUsersCatch_def getAdminAuth_def
      new_Error_def accessFailed_includes)

subsection \<open>The action never throws\<close>

text \<open>
  Claim C3. Whatever the module state and whatever the provider answers,
  \<open>listUsersAction\<close> returns a result object and no error escapes it. When
  \<open>getAdminAuth\<close> throws (a credential or initialisation failure) and when \<open>listUsers\<close>
  throws (a provider failure), the result has \<open>success = false\<close>, no \<open>users\<close>, and a message
  that contains the message of the error. When both succeed, the result has
  \<open>success = true\<close> and carries the users array.
\<close>

theorem listUsersAction_never_throws:
  "\<exists>result. listUsersAction P s = Inr result
     \<and> (case getAdminAuth s of
           Inl error \<Rightarrow>
             \<not> success result \<and> users result = None
             \<and> str_includes (message result) (error_message error)
         | Inr adminAuth \<Rightarrow>
             (case auth_listUsers P adminAuth 1000 of
                Inl error \<Rightarrow>
                  \<not> success result \<and> users result = None
                  \<and> str_includes (message result) (error_message error)
              | Inr userRecords \<Rightarrow>
                  success result
                  \<and> users result =
                      Some (array_sort (Array_sort_order P) (compareCreationTime P)
                              (map (toDisplayUser P) userRecords))))"
proof (cases "getAdminAuth s")
  case (Inl error)
  then show ?thesis
    by (simp add: listUsersAction_def listUsersTry_def listUsersCatch_message)
      (simp add: listUsersCatch_def Let_def)
next
  case auth: (Inr adminAuth)
  show ?thesis
  proof (cases "auth_listUsers P adminAuth 1000")
    case (Inl error)
    with auth show ?thesis
      by (simp add: listUsersAction_def listUsersTry_def listUsersCatch_message)
        (simp add: listUsersCatch_def Let_def)
  next
    case (Inr userRecords)
    with auth show ?thesis
      by (simp add: listUsersAction_def listUsersTry_def Let_def)
  qed
qed

lemma exampleProcess_providerFails:
  "moduleLoad (exampleProcess\<lparr>auth_listUsers := (\<lambda>adminAuth maxResults.
       Inl \<lparr>error_code = Some ''auth/internal-error'', error_message = ''quota exceeded''\<rparr>)\<rparr>) =
   \<lparr>adminAuthInstance = Some (Auth ''[DEFAULT]''), initializationError = None,
      isInitialized = True, initializedVia = Some (''local file ('' @ serviceAccountFilename @ '')'')\<rparr>"
  by (simp add: admin_defs example_defs)

theorem listUsersAction_never_throws_witness:
  "(\<exists>result. listUsersAction exampleProcess (moduleLoad exampleProcess) = Inr result
      \<and> success result \<and> map_option (map user_uid) (users result) = Some [''u2'', ''u1'', ''u3''])
   \<and> (\<exists>result. listUsersAction (exampleProcess\<lparr>fs_existsSync := False\<rparr>)
          (moduleLoad (exampleProcess\<lparr>fs_existsSync := False\<rparr>)) = Inr result
      \<and> \<not> success result \<and> users result = None
      \<and> str_includes (message result)
            (accessFailedMessage
               (noCredentialsFailure (exampleProcess\<lparr>fs_existsSync := False\<rparr>))))
   \<and> (\<exists>result. listUsersAction
          (exampleProcess\<lparr>auth_listUsers := (\<lambda>adminAuth maxResults.
             Inl \<lparr>error_code = Some ''auth/internal-error'', error_message = ''quota exceeded''\<rparr>)\<rparr>)
          (moduleLoad (exampleProcess\<lparr>auth_listUsers := (\<lambda>adminAuth maxResults.
             Inl \<lparr>error_code = Some ''auth/internal-error'', error_message = ''quota exceeded''\<rparr>)\<rparr>))
          = Inr result
      \<and> \<not> success result \<and> users result = None
      \<and> str_includes (message result) ''quota exceeded'')"
  using listUsersAction_never_throws [of exampleProcess "moduleLoad exampleProcess"]
    listUsersAction_never_throws [of "exampleProcess\<lparr>fs_existsSync := False\<rparr>"
      "moduleLoad (exampleProcess\<lparr>fs_existsSync := False\<rparr>)"]
    listUsersAction_never_throws [of "exampleProcess\<lparr>auth_listUsers := (\<lambda>adminAuth maxResults.
         Inl \<lparr>error_code = Some ''auth/internal-error'', error_message = ''quota exceeded''\<rparr>)\<rparr>"
      "moduleLoad (exampleProcess\<lparr>auth_listUsers := (\<lambda>adminAuth maxResults.
         Inl \<lparr>error_code = Some ''auth/internal-error'', error_message = ''quota exceeded''\<rparr>)\<rparr>)"]
  unfolding exampleProcess_listUsers exampleProcess_noFile_listUsers exampleProcess_providerFails
  by (simp add: exampleProcess_moduleLoad exampleProcess_noFile getAdminAuth_def new_Error_def)

subsection \<open>The role flag\<close>

text \<open>
  The value of \<open>isAdmin\<close> is truthy exactly when the admin claim is truthy or the uid is the
  configured (non-empty) primary-admin uid; it is a boolean exactly when the admin claim is
  truthy or the variable is set and not empty.
\<close>

lemma isAdminValue_truthy:
  "truthy (isAdminValue P userRecord) \<longleftrightarrow>
     truthy (customClaim userRecord ''admin'')
     \<or> (\<exists>adminUid. env_NEXT_PUBLIC_ADMIN_UID P = Some adminUid \<and> adminUid \<noteq> []
           \<and> uid userRecord = adminUid)"
  by (auto simp: isAdminValue_def split: option.splits)

lemma isAdminValue_boolean:
  "(\<exists>b. isAdminValue P userRecord = Some (JBool b)) \<longleftrightarrow>
     truthy (customClaim userRecord ''admin'')
     \<or> (\<exists>adminUid. env_NEXT_PUBLIC_ADMIN_UID P = Some adminUid \<and> adminUid \<noteq> [])"
  by (auto simp: isAdminValue_def split: option.splits)

text \<open>
  Claim C7 says that \<open>isAdmin\<close> is a boolean, \<open>false\<close> when the account is no
  administrator. With \<open>NEXT_PUBLIC_ADMIN_UID\<close> unset, the accounts \<open>u1\<close> and \<open>u3\<close>, which have
  no admin claim, are listed with \<open>isAdmin\<close> equal to \<open>undefined\<close>, the value of the right
  operand of \<open>||\<close>, and not \<open>false\<close>.
\<close>

theorem isAdmin_undefined_without_admin_uid:
  "env_NEXT_PUBLIC_ADMIN_UID exampleProcess = None
   \<and> (case listUsersAction exampleProcess (moduleLoad exampleProcess) of
         Inr result \<Rightarrow> map_option (map (\<lambda>u. (user_uid u, isAdmin u))) (users result)
       | Inl error \<Rightarrow> None)
      = Some [(''u2'', Some (JBool True)), (''u1'', None), (''u3'', None)]"
  unfolding exampleProcess_listUsers by (simp add: exampleProcess_def)

subsection \<open>Order and size of the list\<close>

lemma exampleProcess_undated:
  "moduleLoad (exampleProcess\<lparr>auth_listUsers :=
       (\<lambda>adminAuth maxResults. Inr (take maxResults exampleDirectoryUndated))\<rparr>) =
   \<lparr>adminAuthInstance = Some (Auth ''[DEFAULT]''), initializationError = None,
      isInitialized = True, initializedVia = Some (''local file ('' @ serviceAccountFilename @ '')'')\<rparr>"
  by (simp add: admin_defs example_defs)

text \<open>
  Claim C8, as the specification words it: after every successful call the users are sorted
  by creation time, most recent first. It fails when a creation time is not a date: the
  comparator then answers \<open>NaN\<close> for every pair with that account, the order is the
  engine's, and with an engine that leaves such an array as it is (every neighbouring pair
  compares equal) the account of 2019 is listed before the account of 2020.
\<close>

theorem listUsers_unsorted_counterexample:
  "(case listUsersAction
           (exampleProcess\<lparr>auth_listUsers :=
              (\<lambda>adminAuth maxResults. Inr (take maxResults exampleDirectoryUndated))\<rparr>)
           (moduleLoad (exampleProcess\<lparr>auth_listUsers :=
              (\<lambda>adminAuth maxResults. Inr (take maxResults exampleDirectoryUndated))\<rparr>)) of
      Inl error \<Rightarrow> False
    | Inr result \<Rightarrow>
        success result
        \<and> map_option (map (\<lambda>u. (user_uid u, user_creationTime u))) (users result) =
            Some [(''a1'', ''Tue, 01 Jan 2019 00:00:00 GMT''), (''a2'', ''unknown''),
                  (''a3'', ''Wed, 01 Jan 2020 00:00:00 GMT'')]
        \<and> (case users result of
              None \<Rightarrow> False
            | Some listed \<Rightarrow>
                \<not> sorted_wrt (\<lambda>a b. createdAt exampleProcess b \<le> createdAt exampleProcess a)
                      listed))
   \<and> exampleGetTime ''Tue, 01 Jan 2019 00:00:00 GMT'' = Some 1546300800000
   \<and> exampleGetTime ''Wed, 01 Jan 2020 00:00:00 GMT'' = Some 1577836800000
   \<and> exampleGetTime ''unknown'' = None"
  unfolding exampleProcess_undated
  by (simp add: listUsers_defs createdAt_def example_defs)

text \<open>
  Claim C8, amended. In the result of a successful call whose users all carry a creation
  time that \<open>Date\<close> can parse, the users are sorted by creation time in descending order:
  each user was created no earlier than every user listed after it.
\<close>

theorem listUsers_sorted_newest_first:
  assumes "listUsersAction P s = Inr result" "success result" "users result = Some listed"
    and "creationTimesParse P listed"
  shows "sorted_wrt (\<lambda>a b. createdAt P b \<le> createdAt P a) listed"
proof -
  from assms(1,3) obtain adminAuth userRecords where
    listed: "listed = array_sort (Array_sort_order P) (compareCreationTime P)
        (map (toDisplayUser P) userRecords)"
    using listUsersAction_users by blast
  let ?mapped = "map (toDisplayUser P) userRecords"
  have "set ?mapped = set listed"
    by (simp add: listed set_array_sort)
  with assms(4) have "creationTimesParse P ?mapped"
    by (simp add: creationTimesParse_def list_all_iff)
  then show ?thesis
    unfolding listed by (rule sorted_array_sort)
qed

theorem listUsers_sorted_newest_first_witness:
  "sorted_wrt (\<lambda>a b. createdAt exampleProcess b \<le> createdAt exampleProcess a)
     (case listUsersAction exampleProcess (moduleLoad exampleProcess) of
        Inr result \<Rightarrow> (case users result of Some listed \<Rightarrow> listed | None \<Rightarrow> [])
      | Inl error \<Rightarrow> [])
   \<and> map_option (map (createdAt exampleProcess))
         (case listUsersAction exampleProcess (moduleLoad exampleProcess) of
            Inr result \<Rightarrow> users result | Inl error \<Rightarrow> None)
       = Some [1577836800000, 1546300800000, 1546300800000]"
proof -
  let ?result = "\<lparr>success = True, message = ''Successfully fetched 3 users.'',
          users = Some
            [\<lparr>user_uid = ''u2'', user_email = None,
              user_creationTime = ''Wed, 01 Jan 2020 00:00:00 GMT'',
              user_lastSignInTime = ''Wed, 01 Jan 2020 00:00:00 GMT'',
              user_disabled = False, isAdmin = Some (JBool True), allowedSections = JArray []\<rparr>,
             \<lparr>user_uid = ''u1'', user_email = Some ''old@example.com'',
              user_creationTime = ''Tue, 01 Jan 2019 00:00:00 GMT'',
              user_lastSignInTime = ''Wed, 01 Jan 2020 00:00:00 GMT'',
              user_disabled = False, isAdmin = None, allowedSections = JArray []\<rparr>,
             \<lparr>user_uid = ''u3'', user_email = Some ''new@example.com'',
              user_creationTime = ''Tue, 01 Jan 2019 00:00:00 GMT'',
              user_lastSignInTime = ''Tue, 01 Jan 2019 00:00:00 GMT'',
              user_disabled = True, isAdmin = None,
              allowedSections = JArray [JString ''reports'']\<rparr>]\<rparr>"
  have parse: "creationTimesParse exampleProcess (case users ?result of Some listed \<Rightarrow> listed | None \<Rightarrow> [])"
    by (simp add: creationTimesParse_def example_defs)
  have times: "map_option (map (createdAt exampleProcess)) (users ?result)
       = Some [1577836800000, 1546300800000, 1546300800000]"
    by (simp add: createdAt_def example_defs)
  show ?thesis
    using listUsers_sorted_newest_first [OF exampleProcess_listUsers, of _ ] parse times
    unfolding exampleProcess_listUsers
    by simp
qed

text \<open>
  Claim C9. The action asks the provider for at most 1000 accounts: the list it returns is
  the answer to \<open>listUsers(1000)\<close>, account for account, so with a provider that answers
  \<open>listUsers(maxResults)\<close> with at most \<open>maxResults\<close> accounts the list of a successful
  call has at most 1000 users.
\<close>

theorem listUsers_at_most_1000:
  assumes "respectsMaxResults P"
    and "listUsersAction P s = Inr result" "success result" "users result = Some listed"
  shows "length listed \<le> 1000
    \<and> (\<exists>adminAuth userRecords.
          auth_listUsers P adminAuth 1000 = Inr userRecords
          \<and> length listed = length userRecords)"
proof -
  from assms(2,4) obtain adminAuth userRecords where
    answer: "auth_listUsers P adminAuth 1000 = Inr userRecords"
    and listed: "listed = array_sort (Array_sort_order P) (compareCreationTime P)
        (map (toDisplayUser P) userRecords)"
    using listUsersAction_users by blast
  from assms(1) answer have "length userRecords \<le> 1000"
    unfolding respectsMaxResults_def by blast
  moreover have "length listed = length userRecords"
    by (simp add: listed length_array_sort)
  ultimately show ?thesis using answer by auto
qed

lemma exampleProcess_respects: "respectsMaxResults exampleProcess"
  by (auto simp: respectsMaxResults_def exampleProcess_def)

theorem listUsers_at_most_1000_witness:
  "respectsMaxResults exampleProcess
   \<and> (\<exists>result listed. listUsersAction exampleProcess (moduleLoad exampleProcess) = Inr result
         \<and> success result \<and> users result = Some listed \<and> length listed = 3
         \<and> length listed \<le> 1000)"
proof -
  obtain result listed where run:
      "listUsersAction exampleProcess (moduleLoad exampleProcess) = Inr result"
      "success result" "users result = Some listed" "length listed = 3"
    using exampleProcess_listUsers by simp
  with listUsers_at_most_1000 [OF exampleProcess_respects run(1,2,3)] exampleProcess_respects
  show ?thesis by blast
qed

subsection \<open>The permitted sections\<close>

lemma allowedSectionsValue_array: "\<exists>sections. allowedSectionsValue userRecord = JArray sections"
proof (cases "customClaim userRecord ''allowedSections''")
  case None
  then show ?thesis by (simp add: allowedSectionsValue_def)
next
  case (Some claim)
  then show ?thesis by (cases claim) (simp_all add: allowedSectionsValue_def)
qed

text \<open>
  Claim C10. In the result of a successful call, \<open>allowedSections\<close> of every user is an
  array; the users are those built from the accounts of the provider's answer, and an account
  whose \<open>allowedSections\<close> claim is missing or is not an array gives a user whose
  \<open>allowedSections\<close> is the empty array.
\<close>

theorem allowedSections_always_array:
  assumes "listUsersAction P s = Inr result" "users result = Some listed"
  shows "(\<forall>u\<in>set listed. \<exists>sections. allowedSections u = JArray sections)
    \<and> (\<exists>adminAuth userRecords.
          auth_listUsers P adminAuth 1000 = Inr userRecords
          \<and> mset listed = mset (map (toDisplayUser P) userRecords)
          \<and> (\<forall>r\<in>set userRecords.
                (case customClaim r ''allowedSections'' of
                   None \<Rightarrow> True
                 | Some claim \<Rightarrow> \<not> isArray claim)
                \<longrightarrow> allowedSections (toDisplayUser P r) = JArray []))"
proof -
  from assms obtain adminAuth userRecords where
    answer: "auth_listUsers P adminAuth 1000 = Inr userRecords"
    and listed: "listed = array_sort (Array_sort_order P) (compareCreationTime P)
        (map (toDisplayUser P) userRecords)"
    using listUsersAction_users by blast
  have "set listed = toDisplayUser P ` set userRecords"
    by (simp add: listed set_array_sort)
  then have arrays: "\<forall>u\<in>set listed. \<exists>sections. allowedSections u = JArray sections"
    by (auto simp: toDisplayUser_def allowedSectionsValue_array)
  have perm: "mset listed = mset (map (toDisplayUser P) userRecords)"
    by (simp add: listed mset_array_sort)
  have empty: "\<forall>r\<in>set userRecords.
      (case customClaim r ''allowedSections'' of None \<Rightarrow> True | Some claim \<Rightarrow> \<not> isArray claim)
      \<longrightarrow> allowedSections (toDisplayUser P r) = JArray []"
    by (auto simp: toDisplayUser_def allowedSectionsValue_def split: option.splits)
  from arrays answer perm empty show ?thesis by blast
qed

theorem allowedSections_always_array_witness:
  "\<exists>result listed. listUsersAction exampleProcess (moduleLoad exampleProcess) = Inr result
      \<and> users result = Some listed
      \<and> map allowedSections listed = [JArray [], JArray [], JArray [JString ''reports'']]
      \<and> list_all (\<lambda>u. \<exists>sections. allowedSections u = JArray sections) listed"
proof -
  obtain result listed where run:
      "listUsersAction exampleProcess (moduleLoad exampleProcess) = Inr result"
      "users result = Some listed"
      "map allowedSections listed = [JArray [], JArray [], JArray [JString ''reports'']]"
    using exampleProcess_listUsers by simp
  from allowedSections_always_array [OF run(1,2)]
  have "list_all (\<lambda>u. \<exists>sections. allowedSections u = JArray sections) listed"
    by (simp add: list_all_iff)
  with run show ?thesis by (intro exI [of _ result] exI [of _ listed]) simp
qed

end
